theory Spec2Isabelle
  imports Main
begin

section \<open>Text operations of the host language\<close>

text \<open>
  Python texts are modelled as \<^typ>\<open>string\<close>. Character classes are the ASCII ones:
  \<open>lower\<close> changes the letters A to Z only and a digit is one of 0 to 9.
  An exception is represented by its message, the text of \<open>str(exc)\<close>, which is all
  the program ever reads of it.
\<close>

type_synonym exn = string

definition startswith :: "string \<Rightarrow> string \<Rightarrow> bool" where
  "startswith s prefix = (take (length prefix) s = prefix)"

definition endswith :: "string \<Rightarrow> string \<Rightarrow> bool" where
  "endswith s suffix =
     (length suffix \<le> length s \<and> drop (length s - length suffix) s = suffix)"

definition lower_char :: "char \<Rightarrow> char" where
  "lower_char c =
     (case map_of (zip ''ABCDEFGHIJKLMNOPQRSTUVWXYZ'' ''abcdefghijklmnopqrstuvwxyz'') c of
        Some d \<Rightarrow> d
      | None \<Rightarrow> c)"

definition lower :: "string \<Rightarrow> string" where
  "lower s = map lower_char s"

definition is_digit :: "char \<Rightarrow> bool" where
  "is_digit c = (c \<in> set ''0123456789'')"

text \<open>
  \<open>s.replace(old, new)\<close> for a non-empty \<open>old\<close>: every occurrence, found from the
  left and not overlapping, is replaced.
\<close>

function replace :: "string \<Rightarrow> string \<Rightarrow> string \<Rightarrow> string" where
  "replace old new [] = []"
| "replace old new (c # cs) =
     (if old \<noteq> [] \<and> startswith (c # cs) old
      then new @ replace old new (drop (length old) (c # cs))
      else c # replace old new cs)"
  by pat_completeness auto
termination
  by (relation "measure (\<lambda>(old, new, s). length s)") auto

text \<open>\<open>str(n)\<close> of an integer: its decimal digits, with a minus sign when negative.\<close>

definition digit_char :: "nat \<Rightarrow> char" where
  "digit_char d = ''0123456789'' ! (d mod 10)"

function str_nat :: "nat \<Rightarrow> string" where
  "str_nat n = (if n < 10 then [digit_char n] else str_nat (n div 10) @ [digit_char n])"
  by pat_completeness auto
termination
  by (relation "measure (\<lambda>n. n)") auto

definition str_int :: "int \<Rightarrow> string" where
  "str_int i = (if i < 0 then CHR ''-'' # str_nat (nat (- i)) else str_nat (nat i))"

text \<open>
  \<open>re.findall(pattern, s)\<close> for a pattern without capturing groups that never matches
  the empty text: the matches are collected from the left without overlap; where the
  pattern does not match, the scan moves on by one character. The pattern is given by
  the length of its match at the start of a text (\<open>0\<close> when it does not match there).
\<close>

function findall :: "(string \<Rightarrow> nat) \<Rightarrow> string \<Rightarrow> string list" where
  "findall match_at [] = []"
| "findall match_at (c # cs) =
     (let n = match_at (c # cs)
      in if 0 < n then take n (c # cs) # findall match_at (drop n (c # cs))
         else findall match_at cs)"
  by pat_completeness auto
termination
  by (relation "measure (\<lambda>(m, s). length s)") auto

text \<open>
  The pattern \<^verbatim>\<open>r'\d+(?:\.\d+)?'\<close> of \<open>main.py\<close>, \<open>agents.py\<close> and the blocking
  loop of \<open>app.py\<close>: a run of digits, then, when a dot and at least one digit follow,
  the dot and the run of digits after it.
\<close>

definition match_number :: "string \<Rightarrow> nat" where
  "match_number s =
     (let i = length (takeWhile is_digit s)
      in if i = 0 then 0
         else (case drop i s of
                 dot # r \<Rightarrow>
                   (let f = length (takeWhile is_digit r)
                    in if dot = CHR ''.'' \<and> 0 < f then i + 1 + f else i)
               | [] \<Rightarrow> i))"

text \<open>
  The pattern \<^verbatim>\<open>r'\\d+(?:\\.\\d+)?'\<close> of the streaming loop of \<open>app.py\<close>. In a raw
  string the doubled backslash is a regular expression for one literal backslash, so
  this pattern reads: a backslash, a run of the letter \<open>d\<close>, then optionally a
  backslash, any character but a newline, a backslash and a run of the letter \<open>d\<close>.
\<close>

definition is_d :: "char \<Rightarrow> bool" where
  "is_d c = (c = CHR ''d'')"

definition match_escaped :: "string \<Rightarrow> nat" where
  "match_escaped s =
     (case s of
        [] \<Rightarrow> 0
      | b # r \<Rightarrow>
          (let i = length (takeWhile is_d r)
           in if b \<noteq> CHR 0x5C \<or> i = 0 then 0
              else (case drop i r of
                      b1 # x # b2 # r2 \<Rightarrow>
                        (let j = length (takeWhile is_d r2)
                         in if b1 = CHR 0x5C \<and> x \<noteq> CHR 0x0A \<and> b2 = CHR 0x5C \<and> 0 < j
                            then 1 + i + 3 + j else 1 + i)
                    | _ \<Rightarrow> 1 + i)))"

section \<open>Values and the context dictionary\<close>

text \<open>
  A Python value as far as the program distinguishes values: \<open>None\<close>, booleans,
  integers, texts, floats and complex numbers, and every other object of the host
  (a built-in function, a module). Floats and other objects are not interpreted: they
  are identified by a value of the type parameter, and everything computed with them is
  asked of the host.
\<close>

datatype 'x pyval =
    PNone
  | PBool bool
  | PInt int
  | PFloat 'x
  | PComplex 'x
  | PStr string
  | PObj 'x

text \<open>
  A \<open>dict\<close> with text keys keeps its entries in insertion order: assigning to a key
  that is present replaces the value in place, a new key goes to the end.
\<close>

type_synonym 'x pydict = "(string \<times> 'x pyval) list"

definition dict_get :: "'x pydict \<Rightarrow> string \<Rightarrow> 'x pyval option" where
  "dict_get d k = map_of d k"

fun dict_set :: "'x pydict \<Rightarrow> string \<Rightarrow> 'x pyval \<Rightarrow> 'x pydict" where
  "dict_set [] k v = [(k, v)]"
| "dict_set ((k', v') # d) k v = (if k' = k then (k, v) # d else (k', v') # dict_set d k v)"

section \<open>Syntax trees\<close>

text \<open>
  The node classes of the \<open>ast\<close> module. The classes named in \<open>_ALLOWED_AST_NODES\<close>
  and the other operator and context classes have a constructor of their own;
  \<open>Other cls children\<close> is a node of any other class \<open>cls\<close> (\<open>Call\<close>, \<open>Attribute\<close>,
  \<open>Subscript\<close>, \<open>Import\<close>, \<open>Expr\<close>, \<open>If\<close>, \<open>List\<close>, \<open>Compare\<close>, ...) with its child
  nodes in field order. A \<open>Constant\<close> carries its value.
\<close>

datatype operator =
  Add | Sub | Mult | MatMult | Div | Mod | Pow | LShift | RShift | BitOr | BitXor
  | BitAnd | FloorDiv

datatype unaryop = Invert | Not | UAdd | USub

datatype expr_context = Load | Store | Del

datatype 'x ast =
    Module "'x ast list"
  | Expression "'x ast"
  | Assign "'x ast list" "'x ast"
  | BinOp "'x ast" operator "'x ast"
  | UnaryOp unaryop "'x ast"
  | Constant "'x pyval"
  | Name string expr_context
  | OperatorNode operator
  | UnaryopNode unaryop
  | ContextNode expr_context
  | Other string "'x ast list"

fun operator_name :: "operator \<Rightarrow> string" where
  "operator_name Add = ''Add''"
| "operator_name Sub = ''Sub''"
| "operator_name Mult = ''Mult''"
| "operator_name MatMult = ''MatMult''"
| "operator_name Div = ''Div''"
| "operator_name Mod = ''Mod''"
| "operator_name Pow = ''Pow''"
| "operator_name LShift = ''LShift''"
| "operator_name RShift = ''RShift''"
| "operator_name BitOr = ''BitOr''"
| "operator_name BitXor = ''BitXor''"
| "operator_name BitAnd = ''BitAnd''"
| "operator_name FloorDiv = ''FloorDiv''"

fun unaryop_name :: "unaryop \<Rightarrow> string" where
  "unaryop_name Invert = ''Invert''"
| "unaryop_name Not = ''Not''"
| "unaryop_name UAdd = ''UAdd''"
| "unaryop_name USub = ''USub''"

fun context_name :: "expr_context \<Rightarrow> string" where
  "context_name Load = ''Load''"
| "context_name Store = ''Store''"
| "context_name Del = ''Del''"

text \<open>\<open>type(node).__name__\<close>\<close>

fun class_name :: "'x ast \<Rightarrow> string" where
  "class_name (Module body) = ''Module''"
| "class_name (Expression body) = ''Expression''"
| "class_name (Assign targets val) = ''Assign''"
| "class_name (BinOp left op right) = ''BinOp''"
| "class_name (UnaryOp op operand) = ''UnaryOp''"
| "class_name (Constant v) = ''Constant''"
| "class_name (Name ident c) = ''Name''"
| "class_name (OperatorNode op) = operator_name op"
| "class_name (UnaryopNode op) = unaryop_name op"
| "class_name (ContextNode c) = context_name c"
| "class_name (Other cls children) = cls"

text \<open>\<open>ast.iter_child_nodes\<close>: the fields of a node that are nodes, in field order.\<close>

fun iter_child_nodes :: "'x ast \<Rightarrow> 'x ast list" where
  "iter_child_nodes (Module body) = body"
| "iter_child_nodes (Expression body) = [body]"
| "iter_child_nodes (Assign targets val) = targets @ [val]"
| "iter_child_nodes (BinOp left op right) = [left, OperatorNode op, right]"
| "iter_child_nodes (UnaryOp op operand) = [UnaryopNode op, operand]"
| "iter_child_nodes (Constant v) = []"
| "iter_child_nodes (Name ident c) = [ContextNode c]"
| "iter_child_nodes (OperatorNode op) = []"
| "iter_child_nodes (UnaryopNode op) = []"
| "iter_child_nodes (ContextNode c) = []"
| "iter_child_nodes (Other cls children) = children"

text \<open>The number of nodes of a tree, the measure of the walk below.\<close>

fun node_count :: "'x ast \<Rightarrow> nat" where
  "node_count (Module body) = Suc (sum_list (map node_count body))"
| "node_count (Expression body) = Suc (node_count body)"
| "node_count (Assign targets val) = Suc (sum_list (map node_count targets) + node_count val)"
| "node_count (BinOp left op right) = Suc (node_count left + 1 + node_count right)"
| "node_count (UnaryOp op operand) = Suc (1 + node_count operand)"
| "node_count (Constant v) = 1"
| "node_count (Name ident c) = 2"
| "node_count (OperatorNode op) = 1"
| "node_count (UnaryopNode op) = 1"
| "node_count (ContextNode c) = 1"
| "node_count (Other cls children) = Suc (sum_list (map node_count children))"

text \<open>
  \<open>ast.walk\<close>: breadth first, from a queue that starts with the node;
  \<open>ast.walk(node)\<close> is \<open>walk [node]\<close>.
\<close>

function walk :: "'x ast list \<Rightarrow> 'x ast list" where
  "walk [] = []"
| "walk (node # todo) = node # walk (todo @ iter_child_nodes node)"
  by pat_completeness auto
termination
proof (relation "measure (\<lambda>todo. sum_list (map node_count todo))")
  show "wf (measure (\<lambda>todo. sum_list (map node_count todo)))" by simp
next
  fix node :: "'x ast" and todo :: "'x ast list"
  have "Suc (sum_list (map node_count (iter_child_nodes node))) = node_count node"
    by (cases node) simp_all
  then show "(todo @ iter_child_nodes node, node # todo)
      \<in> measure (\<lambda>todo. sum_list (map node_count todo))"
    by simp
qed

section \<open>The allow-list validator\<close>

definition ALLOWED_AST_NODES :: "string list" where
  "ALLOWED_AST_NODES =
     [''Expression'', ''Module'', ''Assign'', ''Load'', ''Store'', ''BinOp'', ''UnaryOp'',
      ''Num'', ''Name'', ''Add'', ''Sub'', ''Mult'', ''Div'', ''FloorDiv'', ''Pow'', ''Mod'',
      ''USub'']"

text \<open>
  \<open>ast.Num\<close> is the deprecated alias of \<open>ast.Constant\<close>: a node is an instance of it
  when it is a \<open>Constant\<close> whose value is an \<open>int\<close>, a \<open>float\<close> or a \<open>complex\<close> and not
  a \<open>bool\<close>. Every other class is matched by its name.
\<close>

fun is_num :: "'x pyval \<Rightarrow> bool" where
  "is_num (PInt i) = True"
| "is_num (PFloat f) = True"
| "is_num (PComplex z) = True"
| "is_num v = False"

fun is_num_constant :: "'x ast \<Rightarrow> bool" where
  "is_num_constant (Constant v) = is_num v"
| "is_num_constant node = False"

definition isinstance :: "'x ast \<Rightarrow> string list \<Rightarrow> bool" where
  "isinstance node classes =
     (class_name node \<in> set classes \<or> (''Num'' \<in> set classes \<and> is_num_constant node))"

definition validate_ast :: "'x ast \<Rightarrow> exn + unit" where
  "validate_ast node =
     (case find (\<lambda>child. \<not> isinstance child ALLOWED_AST_NODES) (walk [node]) of
        Some child \<Rightarrow> Inl (''Disallowed Python syntax: '' @ class_name child)
      | None \<Rightarrow> Inr ())"

section \<open>The host: parser, compiler and arithmetic\<close>

text \<open>
  What \<open>safe_exec\<close> and the loops use of the Python runtime and do not define themselves:
  \<^item> \<open>ast_parse\<close>: \<open>ast.parse(code_str, mode="exec")\<close>, a tree or the message of the
    \<open>SyntaxError\<close>;
  \<^item> \<open>compile_fault\<close>: the message \<open>compile\<close> raises on a tree that is not a well-formed
    module (no tree of the parser is such a tree);
  \<^item> \<open>global_name\<close>: the value of a name that is not in the local scope, looked up in
    the fresh globals \<open>{}\<close> of the call and then in the built-ins;
  \<^item> \<open>bin_op\<close>, \<open>unary_op\<close>: the arithmetic, a value or the message of the fault;
  \<^item> \<open>obj_str\<close>: \<open>str(v)\<close> of a float, a complex number or another object;
  \<^item> \<open>obj_type_name\<close>: the class name of another object;
  \<^item> \<open>int_max_str_digits\<close>: \<open>sys.get_int_max_str_digits()\<close>, the longest integer that
    is converted to decimal text (\<open>4300\<close> digits unless configured; \<open>0\<close> for no limit, as
    before Python 3.10.7);
  \<^item> \<open>to_float\<close>: \<open>float(text)\<close>.
\<close>

record 'x host =
  ast_parse :: "string \<Rightarrow> exn + 'x ast"
  compile_fault :: "'x ast \<Rightarrow> exn"
  global_name :: "string \<Rightarrow> 'x pyval option"
  bin_op :: "operator \<Rightarrow> 'x pyval \<Rightarrow> 'x pyval \<Rightarrow> exn + 'x pyval"
  unary_op :: "unaryop \<Rightarrow> 'x pyval \<Rightarrow> exn + 'x pyval"
  obj_str :: "'x pyval \<Rightarrow> string"
  obj_type_name :: "'x \<Rightarrow> string"
  int_max_str_digits :: nat
  to_float :: "string \<Rightarrow> exn + 'x"

text \<open>
  The conversion of an integer to decimal text raises a \<open>ValueError\<close> when the integer
  has more digits than the limit of the host.
\<close>

definition int_str_fault :: "'x host \<Rightarrow> int \<Rightarrow> exn option" where
  "int_str_fault H i =
     (if int_max_str_digits H \<noteq> 0 \<and> int_max_str_digits H < length (str_nat (nat \<bar>i\<bar>))
      then Some (''Exceeds the limit ('' @ str_nat (int_max_str_digits H)
                 @ '' digits) for integer string conversion; ''
                 @ ''use sys.set_int_max_str_digits() to increase the limit'')
      else None)"

text \<open>\<open>str(v)\<close>, also what an f-string makes of \<open>{v}\<close>: the text, or the exception.\<close>

fun py_str :: "'x host \<Rightarrow> 'x pyval \<Rightarrow> exn + string" where
  "py_str H PNone = Inr ''None''"
| "py_str H (PBool b) = Inr (if b then ''True'' else ''False'')"
| "py_str H (PInt i) = (case int_str_fault H i of Some exc \<Rightarrow> Inl exc | None \<Rightarrow> Inr (str_int i))"
| "py_str H (PStr s) = Inr s"
| "py_str H v = Inr (obj_str H v)"

text \<open>
  \<open>json.dumps\<close> of a value: it raises a \<open>TypeError\<close> on a complex number and on any
  other object that is not a number, a text, a boolean or \<open>None\<close>, and the \<open>ValueError\<close>
  of the integer conversion on an integer that is too long.
\<close>

fun json_fault :: "'x host \<Rightarrow> 'x pyval \<Rightarrow> exn option" where
  "json_fault H (PInt i) = int_str_fault H i"
| "json_fault H (PComplex z) = Some ''Object of type complex is not JSON serializable''"
| "json_fault H (PObj x) =
     Some (''Object of type '' @ obj_type_name H x @ '' is not JSON serializable'')"
| "json_fault H v = None"

text \<open>
  The code object \<open>compile\<close> makes of a module of assignments: for each statement the
  target names, from the left, and the expression assigned to them.
\<close>

datatype 'x expr =
    LoadConst "'x pyval"
  | LoadName string
  | Binary "'x expr" operator "'x expr"
  | Unary unaryop "'x expr"

type_synonym 'x codeobj = "(string list \<times> 'x expr) list"

fun compile_expr :: "'x ast \<Rightarrow> 'x expr option" where
  "compile_expr (Constant v) = Some (LoadConst v)"
| "compile_expr (Name ident Load) = Some (LoadName ident)"
| "compile_expr (BinOp left op right) =
     (case compile_expr left of
        None \<Rightarrow> None
      | Some l \<Rightarrow> (case compile_expr right of None \<Rightarrow> None | Some r \<Rightarrow> Some (Binary l op r)))"
| "compile_expr (UnaryOp op operand) =
     (case compile_expr operand of None \<Rightarrow> None | Some e \<Rightarrow> Some (Unary op e))"
| "compile_expr node = None"

fun compile_target :: "'x ast \<Rightarrow> string option" where
  "compile_target (Name ident Store) = Some ident"
| "compile_target node = None"

fun compile_stmt :: "'x ast \<Rightarrow> (string list \<times> 'x expr) option" where
  "compile_stmt (Assign targets val) =
     (case those (map compile_target targets) of
        None \<Rightarrow> None
      | Some names \<Rightarrow>
          (case compile_expr val of
             None \<Rightarrow> None
           | Some e \<Rightarrow> if names = [] then None else Some (names, e)))"
| "compile_stmt node = None"

fun py_compile :: "'x host \<Rightarrow> 'x ast \<Rightarrow> exn + 'x codeobj" where
  "py_compile H (Module body) =
     (case those (map compile_stmt body) of
        None \<Rightarrow> Inl (compile_fault H (Module body))
      | Some compiled \<Rightarrow> Inr compiled)"
| "py_compile H node = Inl (compile_fault H node)"

text \<open>
  Evaluation of an expression in a local scope: the left operand before the right one;
  a name is read from the local scope, then from the globals and built-ins, and is a
  \<open>NameError\<close> when it is in neither.
\<close>

fun eval_expr :: "'x host \<Rightarrow> 'x pydict \<Rightarrow> 'x expr \<Rightarrow> exn + 'x pyval" where
  "eval_expr H scope (LoadConst v) = Inr v"
| "eval_expr H scope (LoadName ident) =
     (case dict_get scope ident of
        Some v \<Rightarrow> Inr v
      | None \<Rightarrow>
          (case global_name H ident of
             Some v \<Rightarrow> Inr v
           | None \<Rightarrow> Inl (''name '' @ [CHR 0x27] @ ident @ [CHR 0x27] @ '' is not defined'')))"
| "eval_expr H scope (Binary left op right) =
     (case eval_expr H scope left of
        Inl e \<Rightarrow> Inl e
      | Inr l \<Rightarrow>
          (case eval_expr H scope right of
             Inl e \<Rightarrow> Inl e
           | Inr r \<Rightarrow> bin_op H op l r))"
| "eval_expr H scope (Unary op operand) =
     (case eval_expr H scope operand of
        Inl e \<Rightarrow> Inl e
      | Inr v \<Rightarrow> unary_op H op v)"

text \<open>
  \<open>exec\<close> runs the statements in order on the dictionary of local names, every
  assignment binding its targets from the left; a fault stops it there. The result is
  the fault, if any, and the dictionary as \<open>exec\<close> left it.
\<close>

fun exec_code :: "'x host \<Rightarrow> 'x codeobj \<Rightarrow> 'x pydict \<Rightarrow> exn option \<times> 'x pydict" where
  "exec_code H [] scope = (None, scope)"
| "exec_code H ((names, e) # rest) scope =
     (case eval_expr H scope e of
        Inl exc \<Rightarrow> (Some exc, scope)
      | Inr v \<Rightarrow> exec_code H rest (fold (\<lambda>ident d. dict_set d ident v) names scope))"

text \<open>
  Dictionaries are objects: a store holds them, and an address is an index into the
  store. \<open>dict(context)\<close> allocates a new dictionary with the entries of the old one.
\<close>

type_synonym 'x heap = "'x pydict list"

definition alloc :: "'x heap \<Rightarrow> 'x pydict \<Rightarrow> nat \<times> 'x heap" where
  "alloc h d = (length h, h @ [d])"

section \<open>The evaluator \<open>safe_exec\<close>\<close>

text \<open>
  The body of the \<open>try\<close> of \<open>safe_exec\<close>, with \<open>context\<close> the address of the caller's
  dictionary: the value of \<open>result\<close>, or the exception that left the body. \<open>exec\<close>
  works on the dictionary at \<open>local_scope\<close>, the copy, in place.
\<close>

definition safe_exec_try :: "'x host \<Rightarrow> string \<Rightarrow> nat \<Rightarrow> 'x heap \<Rightarrow> (exn + 'x pyval) \<times> 'x heap" where
  "safe_exec_try H code_str context h =
     (case ast_parse H code_str of
        Inl exc \<Rightarrow> (Inl exc, h)
      | Inr tree \<Rightarrow>
          (case validate_ast tree of
             Inl exc \<Rightarrow> (Inl exc, h)
           | Inr u \<Rightarrow>
               (case py_compile H tree of
                  Inl exc \<Rightarrow> (Inl exc, h)
                | Inr compiled \<Rightarrow>
                    (let (local_scope, h1) = alloc h (h ! context);
                         h2 = h1[local_scope := dict_set (h1 ! local_scope) ''result'' PNone];
                         (fault, scope) = exec_code H compiled (h2 ! local_scope);
                         h3 = h2[local_scope := scope]
                     in case fault of
                          Some exc \<Rightarrow> (Inl exc, h3)
                        | None \<Rightarrow>
                            (Inr (case dict_get (h3 ! local_scope) ''result'' of
                                    Some v \<Rightarrow> v
                                  | None \<Rightarrow> PNone), h3)))))"

definition safe_exec :: "'x host \<Rightarrow> string \<Rightarrow> nat \<Rightarrow> 'x heap \<Rightarrow> 'x pyval \<times> 'x heap" where
  "safe_exec H code_str context h =
     (case safe_exec_try H code_str context h of
        (Inl exc, h') \<Rightarrow> (PStr (''EXECUTION_ERROR: '' @ exc), h')
      | (Inr v, h') \<Rightarrow> (v, h'))"

text \<open>
  The test the loops make on an output:
  \<open>isinstance(output, str) and output.startswith("EXECUTION_ERROR")\<close>.
\<close>

fun is_execution_error :: "'x pyval \<Rightarrow> bool" where
  "is_execution_error (PStr s) = startswith s ''EXECUTION_ERROR''"
| "is_execution_error v = False"

section \<open>The remote collaborators\<close>

text \<open>
  A plan step as \<open>decompose_problem\<close> returns it, after it has filled in a missing
  \<open>step_num\<close> and \<open>type\<close>; \<open>step_num\<close> is an integer, as \<open>_JSON_SCHEMA_PLAN\<close> declares
  it and as \<open>decompose_problem\<close> fills it in.
\<close>

record step =
  step_num :: int
  step_type :: string
  description :: string

text \<open>
  The record of one attempt, the \<open>attempt_data\<close> of \<open>app.py\<close> (\<open>main.py\<close> prints the same
  items).
\<close>

record 'x attempt_data =
  attempt_number :: nat
  attempt_code :: string
  attempt_output :: "'x pyval"
  attempt_feedback :: string
  attempt_success :: bool

text \<open>
  What the orchestration has done so far: the calls it made to the collaborators, with
  the arguments passed, the snippets it executed, with their outputs, and the attempt
  records it produced.
\<close>

datatype 'x event =
    Decompose string
  | Generate string "'x pydict"
  | Execute string "'x pyval"
  | Critique string string string "'x pydict"
  | Attempted "'x attempt_data"
  | Synthesize string "'x pydict"

text \<open>
  The four agents of \<open>agents.py\<close> are calls to a remote model. Each is a function of
  its arguments and, after the decomposition, of everything that happened before the
  call, so that two calls with the same arguments may answer differently; a call
  returns its text or raises (\<open>Inl\<close>).
\<close>

record 'x collaborators =
  decompose_problem :: "string \<Rightarrow> exn + step list"
  generate_code_for_step :: "'x event list \<Rightarrow> string \<Rightarrow> 'x pydict \<Rightarrow> exn + string"
  self_critique_output ::
    "'x event list \<Rightarrow> string \<Rightarrow> string \<Rightarrow> string \<Rightarrow> 'x pydict \<Rightarrow> exn + string"
  synthesize_answer :: "'x event list \<Rightarrow> string \<Rightarrow> 'x pydict \<Rightarrow> exn + string"

section \<open>The orchestration loops\<close>

text \<open>
  The repository has three copies of the loop: \<open>solve_complex_query\<close> in \<open>main.py\<close>,
  and \<open>solve_query_with_steps\<close> and \<open>solve_query_stream\<close> in \<open>app.py\<close>. They differ
  in the steps that enter the retry loop, in the pattern that extracts a correction,
  in the serialisation of the attempt record by the streaming loop and in the message
  of a failed decomposition; the model has one loop with the copy as a parameter.
\<close>

datatype loop_variant = Console | Blocking | Streaming

definition MAX_CRITIQUE_ATTEMPTS :: nat where
  "MAX_CRITIQUE_ATTEMPTS = 3"

record 'x state =
  intermediate_results :: "'x pydict"
  trace :: "'x event list"

text \<open>The key \<open>f"step_{num}_result"\<close>.\<close>

definition result_key :: "int \<Rightarrow> string" where
  "result_key num = ''step_'' @ str_int num @ ''_result''"

text \<open>
  The expected values handed to the critic: built entry by entry from the items of
  \<open>intermediate_results\<close>, in their order.
\<close>

definition expected_values :: "'x pydict \<Rightarrow> 'x pydict" where
  "expected_values results =
     fold (\<lambda>(key, val) expected.
             if startswith key ''step_'' \<and> endswith key ''_result''
                \<and> val \<noteq> PStr ''FAILED_TO_REFINE''
             then dict_set expected (replace ''_result'' [] key) val
             else expected)
          results []"

text \<open>
  \<open>main.py\<close> and the blocking loop of \<open>app.py\<close> run the retry loop for the types
  \<open>calculation\<close> and \<open>data_lookup\<close>; the streaming loop has no such test.
\<close>

fun enters_retry_loop :: "loop_variant \<Rightarrow> string \<Rightarrow> bool" where
  "enters_retry_loop Streaming s_type = True"
| "enters_retry_loop variant s_type = (s_type = ''calculation'' \<or> s_type = ''data_lookup'')"

fun correction_numbers :: "loop_variant \<Rightarrow> string \<Rightarrow> string list" where
  "correction_numbers Streaming feedback = findall match_escaped feedback"
| "correction_numbers variant feedback = findall match_number feedback"

text \<open>
  The streaming loop yields \<open>json.dumps\<close> of the attempt record, with the output in it,
  before it tests the success of the attempt (\<open>app.py\<close>, line 181); the other loops keep
  or print the record as it is.
\<close>

fun yield_attempt :: "loop_variant \<Rightarrow> 'x host \<Rightarrow> 'x attempt_data \<Rightarrow> exn option" where
  "yield_attempt Streaming H attempt_data = json_fault H (attempt_output attempt_data)"
| "yield_attempt variant H attempt_data = None"

text \<open>
  One pass through the body of the \<open>while\<close> loop, up to the test of the feedback:
  generate, execute, critique unless the output is an execution error, and make the
  attempt record. The caller's dictionary is the one object of the store handed to
  \<open>safe_exec\<close> and is read back from it afterwards. After the execution every copy of
  the loop first converts the output to text, \<open>main.py\<close> to print it (line 100) and
  \<open>app.py\<close> for the local feedback or for the argument of the critic. An exception of a
  collaborator, of the conversion or of the serialisation leaves the body.
\<close>

definition run_attempt ::
  "loop_variant \<Rightarrow> 'x host \<Rightarrow> 'x collaborators \<Rightarrow> string \<Rightarrow> step \<Rightarrow> nat \<Rightarrow> 'x state
     \<Rightarrow> exn + ('x attempt_data \<times> 'x state)" where
  "run_attempt variant H C query stp attempt st =
     (case generate_code_for_step C (trace st) (description stp) (intermediate_results st) of
        Inl exc \<Rightarrow> Inl exc
      | Inr code \<Rightarrow>
          (let st1 = st\<lparr>trace := trace st
                       @ [Generate (description stp) (intermediate_results st)]\<rparr>;
               (output, h) = safe_exec H code 0 [intermediate_results st1];
               st2 = st1\<lparr>intermediate_results := h ! 0,
                        trace := trace st1 @ [Execute code output]\<rparr>;
               expected = expected_values (intermediate_results st2)
           in case py_str H output of
                Inl exc \<Rightarrow> Inl exc
              | Inr text \<Rightarrow>
                  (case (if is_execution_error output
                         then Inr (''Execution failed: '' @ text, st2)
                         else (case self_critique_output C (trace st2) (description stp)
                                      text query expected of
                                 Inl exc \<Rightarrow> Inl exc
                               | Inr feedback \<Rightarrow>
                                   Inr (feedback,
                                        st2\<lparr>trace := trace st2
                                          @ [Critique (description stp) text query
                                               expected]\<rparr>))) of
                     Inl exc \<Rightarrow> Inl exc
                   | Inr (feedback, st3) \<Rightarrow>
                       (let attempt_data =
                              \<lparr>attempt_number = attempt + 1, attempt_code = code,
                               attempt_output = output, attempt_feedback = feedback,
                               attempt_success = startswith (lower feedback) ''correct''\<rparr>
                        in case yield_attempt variant H attempt_data of
                             Some exc \<Rightarrow> Inl exc
                           | None \<Rightarrow>
                               Inr (attempt_data,
                                    st3\<lparr>trace := trace st3 @ [Attempted attempt_data]\<rparr>)))))"

text \<open>
  The rest of the body after a rejection: \<open>last_feedback\<close> is overwritten; when the
  feedback starts with \<open>Incorrect:\<close> and the pattern finds numbers, the last of them is
  converted with \<open>float\<close> and stored as \<open>expected_correction\<close>.
\<close>

definition store_rejection :: "loop_variant \<Rightarrow> 'x host \<Rightarrow> string \<Rightarrow> 'x state \<Rightarrow> exn + 'x state" where
  "store_rejection variant H feedback st =
     (let results = dict_set (intermediate_results st) ''last_feedback'' (PStr feedback)
      in if startswith feedback ''Incorrect:''
         then (case correction_numbers variant feedback of
                 [] \<Rightarrow> Inr (st\<lparr>intermediate_results := results\<rparr>)
               | n # ns \<Rightarrow>
                   (case to_float H (last (n # ns)) of
                      Inl exc \<Rightarrow> Inl exc
                    | Inr x \<Rightarrow>
                        Inr (st\<lparr>intermediate_results :=
                                  dict_set results ''expected_correction'' (PFloat x)\<rparr>)))
         else Inr (st\<lparr>intermediate_results := results\<rparr>))"

text \<open>
  The \<open>while attempt < MAX_CRITIQUE_ATTEMPTS\<close> loop with its \<open>else\<close> branch: an accepted
  attempt stores the output and breaks; when the condition fails the sentinel is stored.
\<close>

function attempt_loop ::
  "loop_variant \<Rightarrow> 'x host \<Rightarrow> 'x collaborators \<Rightarrow> string \<Rightarrow> step \<Rightarrow> nat \<Rightarrow> 'x state
     \<Rightarrow> exn + 'x state" where
  "attempt_loop variant H C query stp attempt st =
     (if attempt < MAX_CRITIQUE_ATTEMPTS
      then (case run_attempt variant H C query stp attempt st of
              Inl exc \<Rightarrow> Inl exc
            | Inr (attempt_data, st1) \<Rightarrow>
                if attempt_success attempt_data
                then Inr (st1\<lparr>intermediate_results :=
                               dict_set (intermediate_results st1) (result_key (step_num stp))
                                 (attempt_output attempt_data)\<rparr>)
                else (case store_rejection variant H (attempt_feedback attempt_data) st1 of
                        Inl exc \<Rightarrow> Inl exc
                      | Inr st2 \<Rightarrow> attempt_loop variant H C query stp (attempt + 1) st2))
      else Inr (st\<lparr>intermediate_results :=
                     dict_set (intermediate_results st) (result_key (step_num stp))
                       (PStr ''FAILED_TO_REFINE'')\<rparr>))"
  by pat_completeness auto
termination
  by (relation "measure (\<lambda>(variant, H, C, query, stp, attempt, st).
                           MAX_CRITIQUE_ATTEMPTS - attempt)") auto

text \<open>The \<open>for step in plan["plan"]\<close> loop.\<close>

fun process_plan ::
  "loop_variant \<Rightarrow> 'x host \<Rightarrow> 'x collaborators \<Rightarrow> string \<Rightarrow> step list \<Rightarrow> 'x state
     \<Rightarrow> exn + 'x state" where
  "process_plan variant H C query [] st = Inr st"
| "process_plan variant H C query (stp # rest) st =
     (if enters_retry_loop variant (step_type stp)
      then (case attempt_loop variant H C query stp 0 st of
              Inl exc \<Rightarrow> Inl exc
            | Inr st' \<Rightarrow> process_plan variant H C query rest st')
      else process_plan variant H C query rest st)"

text \<open>
  A failure of the decomposition leaves \<open>solve_complex_query\<close> as it is; the loops of
  \<open>app.py\<close> report it with a prefix.
\<close>

fun decompose_failure :: "loop_variant \<Rightarrow> exn \<Rightarrow> exn" where
  "decompose_failure Console exc = exc"
| "decompose_failure variant exc = ''Failed to decompose problem: '' @ exc"

text \<open>
  A whole query: decompose, run the plan on an empty dictionary, synthesize. The result
  is the final answer with the final state, or the failure that ended the query.
\<close>

definition solve_query ::
  "loop_variant \<Rightarrow> 'x host \<Rightarrow> 'x collaborators \<Rightarrow> string \<Rightarrow> exn + (string \<times> 'x state)" where
  "solve_query variant H C query =
     (case decompose_problem C query of
        Inl exc \<Rightarrow> Inl (decompose_failure variant exc)
      | Inr plan \<Rightarrow>
          (case process_plan variant H C query plan
                  \<lparr>intermediate_results = [], trace = [Decompose query]\<rparr> of
             Inl exc \<Rightarrow> Inl exc
           | Inr st \<Rightarrow>
               (case synthesize_answer C (trace st) query (intermediate_results st) of
                  Inl exc \<Rightarrow> Inl exc
                | Inr answer \<Rightarrow>
                    Inr (answer,
                         st\<lparr>trace := trace st
                               @ [Synthesize query (intermediate_results st)]\<rparr>))))"

definition solve_complex_query ::
  "'x host \<Rightarrow> 'x collaborators \<Rightarrow> string \<Rightarrow> exn + (string \<times> 'x state)" where
  "solve_complex_query = solve_query Console"

definition solve_query_with_steps ::
  "'x host \<Rightarrow> 'x collaborators \<Rightarrow> string \<Rightarrow> exn + (string \<times> 'x state)" where
  "solve_query_with_steps = solve_query Blocking"

definition solve_query_stream ::
  "'x host \<Rightarrow> 'x collaborators \<Rightarrow> string \<Rightarrow> exn + (string \<times> 'x state)" where
  "solve_query_stream = solve_query Streaming"

section \<open>Notions used in the statements\<close>

text \<open>The names a tree binds: the identifiers of its \<open>Name\<close> nodes in \<open>Store\<close> context.\<close>

fun stored_names :: "'x ast \<Rightarrow> string set" where
  "stored_names (Module body) = (\<Union>node \<in> set body. stored_names node)"
| "stored_names (Expression body) = stored_names body"
| "stored_names (Assign targets val) =
     (\<Union>node \<in> set targets. stored_names node) \<union> stored_names val"
| "stored_names (BinOp left op right) = stored_names left \<union> stored_names right"
| "stored_names (UnaryOp op operand) = stored_names operand"
| "stored_names (Constant v) = {}"
| "stored_names (Name ident c) = (if c = Store then {ident} else {})"
| "stored_names (OperatorNode op) = {}"
| "stored_names (UnaryopNode op) = {}"
| "stored_names (ContextNode c) = {}"
| "stored_names (Other cls children) = (\<Union>node \<in> set children. stored_names node)"

text \<open>The first node of a walk that the allow-list does not cover.\<close>

definition first_disallowed :: "'x ast \<Rightarrow> 'x ast option" where
  "first_disallowed tree =
     find (\<lambda>child. \<not> isinstance child ALLOWED_AST_NODES) (walk [tree])"

text \<open>
  The keys the loops write: the result key of a step, \<open>last_feedback\<close> and
  \<open>expected_correction\<close>. A dictionary is well formed when no key occurs twice and
  every key is one of these.
\<close>

definition loop_key :: "string \<Rightarrow> bool" where
  "loop_key k =
     (k = ''last_feedback'' \<or> k = ''expected_correction'' \<or> (\<exists>num. k = result_key num))"

definition well_formed :: "'x pydict \<Rightarrow> bool" where
  "well_formed d = (distinct (map fst d) \<and> (\<forall>k \<in> set (map fst d). loop_key k))"


fun is_critique :: "'x event \<Rightarrow> bool" where
  "is_critique (Critique desc out query expected) = True"
| "is_critique e = False"

fun is_generate :: "'x event \<Rightarrow> bool" where
  "is_generate (Generate desc d) = True"
| "is_generate e = False"


text \<open>The output of \<open>safe_exec\<close> for a snippet run on a dictionary.\<close>

definition output_of :: "'x host \<Rightarrow> string \<Rightarrow> 'x pydict \<Rightarrow> 'x pyval" where
  "output_of H code results = fst (safe_exec H code 0 [results])"

text \<open>
  The state after \<open>n\<close> attempts in a row, the first of them with the counter at
  \<open>attempt\<close>, that all ran to their end and were all rejected; \<open>None\<close> when one of
  them is accepted or raises.
\<close>

fun rejected_attempts ::
  "loop_variant \<Rightarrow> 'x host \<Rightarrow> 'x collaborators \<Rightarrow> string \<Rightarrow> step \<Rightarrow> nat \<Rightarrow> nat \<Rightarrow> 'x state
     \<Rightarrow> 'x state option" where
  "rejected_attempts variant H C query stp 0 attempt st = Some st"
| "rejected_attempts variant H C query stp (Suc n) attempt st =
     (case run_attempt variant H C query stp attempt st of
        Inl exc \<Rightarrow> None
      | Inr (attempt_data, st1) \<Rightarrow>
          if attempt_success attempt_data then None
          else (case store_rejection variant H (attempt_feedback attempt_data) st1 of
                  Inl exc \<Rightarrow> None
                | Inr st2 \<Rightarrow> rejected_attempts variant H C query stp n (attempt + 1) st2))"





section \<open>A concrete host and scripted collaborators\<close>

text \<open>
  For evaluating the model on examples: a host whose parser knows a few snippets and
  whose arithmetic is that of the integers, with the two operations of the snippet
  \<open>(-8) ** (1 / 3)\<close> besides, and with a float or complex number identified by its text;
  and collaborators that answer from a script, the \<open>k\<close>-th generation call
  with the \<open>k\<close>-th snippet and the \<open>k\<close>-th critique call with the \<open>k\<close>-th feedback.
\<close>

definition demo_parse :: "string \<Rightarrow> exn + string ast" where
  "demo_parse code_str =
     (if code_str = ''result = 2 + 3 * 4''
      then Inr (Module [Assign [Name ''result'' Store]
                  (BinOp (Constant (PInt 2)) Add
                     (BinOp (Constant (PInt 3)) Mult (Constant (PInt 4))))])
      else if code_str = ''total = 7''
      then Inr (Module [Assign [Name ''total'' Store] (Constant (PInt 7))])
      else if code_str = ''result = 1 // 0''
      then Inr (Module [Assign [Name ''result'' Store]
                  (BinOp (Constant (PInt 1)) FloorDiv (Constant (PInt 0)))])
      else if code_str = ''result = (-8) ** (1 / 3)''
      then Inr (Module [Assign [Name ''result'' Store]
                  (BinOp (UnaryOp USub (Constant (PInt 8))) Pow
                     (BinOp (Constant (PInt 1)) Div (Constant (PInt 3))))])
      else if code_str = ''result = __import__(name).system(cmd)''
      then Inr (Module [Assign [Name ''result'' Store]
                  (Other ''Call''
                     [Other ''Attribute''
                        [Other ''Call'' [Name ''__import__'' Load, Name ''name'' Load],
                         ContextNode Load],
                      Name ''cmd'' Load])])
      else Inl ''invalid syntax (<unknown>, line 1)'')"

definition demo_bin_op :: "operator \<Rightarrow> string pyval \<Rightarrow> string pyval \<Rightarrow> exn + string pyval" where
  "demo_bin_op op l r =
     (case (l, r) of
        (PInt a, PInt b) \<Rightarrow>
          (case op of
             Add \<Rightarrow> Inr (PInt (a + b))
           | Sub \<Rightarrow> Inr (PInt (a - b))
           | Mult \<Rightarrow> Inr (PInt (a * b))
           | FloorDiv \<Rightarrow>
               if b = 0 then Inl ''integer division or modulo by zero''
               else Inr (PInt (a div b))
           | Mod \<Rightarrow>
               if b = 0 then Inl ''integer modulo by zero'' else Inr (PInt (a mod b))
           | Div \<Rightarrow>
               if a = 1 \<and> b = 3 then Inr (PFloat ''0.3333333333333333'')
               else Inl ''unsupported operand''
           | _ \<Rightarrow> Inl ''unsupported operand'')
      | (PInt a, PFloat y) \<Rightarrow>
          if op = Pow \<and> a = - 8 \<and> y = ''0.3333333333333333''
          then Inr (PComplex ''(1.0000000000000002+1.7320508075688772j)'')
          else Inl ''unsupported operand''
      | _ \<Rightarrow> Inl ''unsupported operand'')"

definition demo_unary_op :: "unaryop \<Rightarrow> string pyval \<Rightarrow> exn + string pyval" where
  "demo_unary_op op v =
     (case (op, v) of
        (USub, PInt a) \<Rightarrow> Inr (PInt (- a))
      | _ \<Rightarrow> Inl ''bad operand type'')"

fun demo_obj_str :: "string pyval \<Rightarrow> string" where
  "demo_obj_str (PFloat x) = x"
| "demo_obj_str (PComplex x) = x"
| "demo_obj_str (PObj x) = x"
| "demo_obj_str v = []"

definition demo_to_float :: "string \<Rightarrow> exn + string" where
  "demo_to_float text =
     (if text \<noteq> [] \<and> match_number text = length text then Inr text
      else Inl (''could not convert string to float: '' @ [CHR 0x27]
                @ concat (map (\<lambda>c. if c = CHR 0x5C then [c, c] else [c]) text) @ [CHR 0x27]))"

definition demo_host :: "string host" where
  "demo_host =
     \<lparr>ast_parse = demo_parse,
      compile_fault = (\<lambda>tree. ''expected some sort of stmt''),
      global_name = (\<lambda>ident. if ident = ''len'' then Some (PObj ''<built-in function len>'')
                              else None),
      bin_op = demo_bin_op,
      unary_op = demo_unary_op,
      obj_str = demo_obj_str,
      obj_type_name = (\<lambda>x. ''builtin_function_or_method''),
      int_max_str_digits = 4300,
      to_float = demo_to_float\<rparr>"

definition script_entry :: "(exn + string) list \<Rightarrow> nat \<Rightarrow> exn + string" where
  "script_entry script k = (if k < length script then script ! k else Inl ''script exhausted'')"

definition scripted ::
  "step list \<Rightarrow> (exn + string) list \<Rightarrow> (exn + string) list \<Rightarrow> 'x collaborators" where
  "scripted plan snippets feedbacks =
     \<lparr>decompose_problem = (\<lambda>query. Inr plan),
      generate_code_for_step =
        (\<lambda>tr desc d. script_entry snippets (length (filter is_generate tr))),
      self_critique_output =
        (\<lambda>tr desc out query expected. script_entry feedbacks (length (filter is_critique tr))),
      synthesize_answer = (\<lambda>tr query d. Inr ''done'')\<rparr>"

definition demo_step :: "int \<Rightarrow> step" where
  "demo_step num = \<lparr>step_num = num, step_type = ''calculation'', description = ''compute''\<rparr>"

text \<open>The state in which the plan of a query \<open>q\<close> starts.\<close>

definition demo_start :: "string state" where
  "demo_start = \<lparr>intermediate_results = [], trace = [Decompose ''q'']\<rparr>"

section \<open>Properties of \<open>safe_exec\<close>\<close>

lemma dict_get_set:
  "dict_get (dict_set d k v) k' = (if k' = k then Some v else dict_get d k')"
  by (induction d) (auto simp: dict_get_def)


lemma safe_exec_try_frame:
  "take (length h) (snd (safe_exec_try H code_str c h)) = h"
  by (simp add: safe_exec_try_def alloc_def Let_def split_def
           split: sum.splits option.splits)

lemma safe_exec_fst:
  "fst (safe_exec H code_str c h) =
     (case fst (safe_exec_try H code_str c h) of
        Inl exc \<Rightarrow> PStr (''EXECUTION_ERROR: '' @ exc) | Inr v \<Rightarrow> v)"
  by (simp add: safe_exec_def split: prod.splits sum.splits)

lemma safe_exec_snd:
  "snd (safe_exec H code_str c h) = snd (safe_exec_try H code_str c h)"
  by (simp add: safe_exec_def split: prod.splits sum.splits)


lemma find_exists: "x \<in> set xs \<Longrightarrow> P x \<Longrightarrow> \<exists>y. find P xs = Some y"
  by (cases "find P xs") (auto simp: find_None_iff)

lemma find_props: "find P xs = Some y \<Longrightarrow> y \<in> set xs \<and> P y"
  by (auto simp: find_Some_iff)

lemma first_disallowed_exists:
  assumes "node \<in> set (walk [tree])" and "\<not> isinstance node ALLOWED_AST_NODES"
  shows "\<exists>first. first_disallowed tree = Some first"
  unfolding first_disallowed_def
  using find_exists [of node "walk [tree]" "\<lambda>child. \<not> isinstance child ALLOWED_AST_NODES"] assms
  by blast

lemma first_disallowed_props:
  assumes "first_disallowed tree = Some first"
  shows "first \<in> set (walk [tree]) \<and> \<not> isinstance first ALLOWED_AST_NODES"
  using assms find_props [of "\<lambda>child. \<not> isinstance child ALLOWED_AST_NODES" "walk [tree]" first]
  unfolding first_disallowed_def by blast

lemma safe_exec_disallowed:
  assumes "ast_parse H code_str = Inr tree" and "first_disallowed tree = Some first"
  shows "safe_exec H code_str context h
           = (PStr (''EXECUTION_ERROR: Disallowed Python syntax: '' @ class_name first), h)"
  using assms
  by (simp add: safe_exec_def safe_exec_try_def validate_ast_def first_disallowed_def)

text \<open>What the allow-list covers and examples of what it does not.\<close>

lemma disallowed_constructs:
  "cls \<notin> set ALLOWED_AST_NODES \<Longrightarrow> \<not> isinstance (Other cls children) ALLOWED_AST_NODES"
  "\<not> isinstance (Constant (PStr s)) ALLOWED_AST_NODES"
  "\<not> isinstance (Constant (PBool b)) ALLOWED_AST_NODES"
  "\<not> isinstance (Constant PNone) ALLOWED_AST_NODES"
  "uop \<noteq> USub \<Longrightarrow> \<not> isinstance (UnaryopNode uop) ALLOWED_AST_NODES"
  "op \<in> {MatMult, LShift, RShift, BitOr, BitXor, BitAnd}
     \<Longrightarrow> \<not> isinstance (OperatorNode op) ALLOWED_AST_NODES"
  "\<not> isinstance (ContextNode Del) ALLOWED_AST_NODES"
proof -
  show "cls \<notin> set ALLOWED_AST_NODES \<Longrightarrow> \<not> isinstance (Other cls children) ALLOWED_AST_NODES"
    by (simp add: isinstance_def)
  show "\<not> isinstance (Constant (PStr s)) ALLOWED_AST_NODES"
    by (simp add: isinstance_def ALLOWED_AST_NODES_def)
  show "\<not> isinstance (Constant (PBool b)) ALLOWED_AST_NODES"
    by (simp add: isinstance_def ALLOWED_AST_NODES_def)
  show "\<not> isinstance (Constant PNone) ALLOWED_AST_NODES"
    by (simp add: isinstance_def ALLOWED_AST_NODES_def)
  show "uop \<noteq> USub \<Longrightarrow> \<not> isinstance (UnaryopNode uop) ALLOWED_AST_NODES"
    by (cases uop) (simp_all add: isinstance_def ALLOWED_AST_NODES_def)
  show "op \<in> {MatMult, LShift, RShift, BitOr, BitXor, BitAnd}
     \<Longrightarrow> \<not> isinstance (OperatorNode op) ALLOWED_AST_NODES"
    by (auto simp: isinstance_def ALLOWED_AST_NODES_def)
  show "\<not> isinstance (ContextNode Del) ALLOWED_AST_NODES"
    by (simp add: isinstance_def ALLOWED_AST_NODES_def)
qed

lemma allowed_constructs:
  "isinstance (Module body) ALLOWED_AST_NODES"
  "isinstance (Assign targets val) ALLOWED_AST_NODES"
  "isinstance (BinOp left op right) ALLOWED_AST_NODES"
  "isinstance (UnaryOp uop operand) ALLOWED_AST_NODES"
  "isinstance (Name ident c) ALLOWED_AST_NODES"
  "isinstance (Constant (PInt i)) ALLOWED_AST_NODES"
  "isinstance (Constant (PFloat x)) ALLOWED_AST_NODES"
  "isinstance (UnaryopNode USub) ALLOWED_AST_NODES"
  "op \<in> {Add, Sub, Mult, Div, FloorDiv, Mod, Pow}
     \<Longrightarrow> isinstance (OperatorNode op) ALLOWED_AST_NODES"
  by (auto simp: isinstance_def ALLOWED_AST_NODES_def)

text \<open>
  Claim C1. When the tree of a snippet has a node outside the allow-list, \<open>safe_exec\<close>
  returns the text \<open>EXECUTION_ERROR: Disallowed Python syntax: \<close> followed by the class
  name of the first such node in the order of the walk. The loops read this output as
  an execution error. Nothing has been evaluated: the store is as it was, no local scope
  has been made. The result is a value whatever the tree, so no fault reaches the caller.
\<close>

theorem safe_exec_rejects_disallowed:
  assumes "ast_parse H code_str = Inr tree"
      and "node \<in> set (walk [tree])"
      and "\<not> isinstance node ALLOWED_AST_NODES"
  shows "\<exists>first. first_disallowed tree = Some first
           \<and> first \<in> set (walk [tree])
           \<and> \<not> isinstance first ALLOWED_AST_NODES
           \<and> safe_exec H code_str context h
               = (PStr (''EXECUTION_ERROR: Disallowed Python syntax: '' @ class_name first), h)
           \<and> is_execution_error (fst (safe_exec H code_str context h))"
proof -
  obtain first where f: "first_disallowed tree = Some first"
    using first_disallowed_exists [OF assms(2,3)] by blast
  have run: "safe_exec H code_str context h
      = (PStr (''EXECUTION_ERROR: Disallowed Python syntax: '' @ class_name first), h)"
    by (rule safe_exec_disallowed [OF assms(1) f])
  have "is_execution_error (fst (safe_exec H code_str context h))"
    by (simp add: run startswith_def)
  then show ?thesis using f run first_disallowed_props [OF f] by blast
qed

theorem safe_exec_rejects_disallowed_witness:
  "safe_exec demo_host ''result = __import__(name).system(cmd)'' 0 [[(''name'', PStr ''os'')]]
     = (PStr ''EXECUTION_ERROR: Disallowed Python syntax: Call'', [[(''name'', PStr ''os'')]])"
proof -
  let ?tree = "Module [Assign [Name ''result'' Store]
                  (Other ''Call''
                     [Other ''Attribute''
                        [Other ''Call'' [Name ''__import__'' Load, Name ''name'' Load],
                         ContextNode Load],
                      Name ''cmd'' Load])] :: string ast"
  let ?call = "Other ''Call''
                     [Other ''Attribute''
                        [Other ''Call'' [Name ''__import__'' Load, Name ''name'' Load],
                         ContextNode Load],
                      Name ''cmd'' Load] :: string ast"
  have p: "ast_parse demo_host ''result = __import__(name).system(cmd)'' = Inr ?tree"
    by (simp add: demo_host_def demo_parse_def)
  have m: "?call \<in> set (walk [?tree])" by simp
  have d: "\<not> isinstance ?call ALLOWED_AST_NODES"
    by (simp add: isinstance_def ALLOWED_AST_NODES_def)
  have fd: "first_disallowed ?tree = Some ?call"
    by (simp add: first_disallowed_def isinstance_def ALLOWED_AST_NODES_def)
  show ?thesis
    using safe_exec_rejects_disallowed [OF p m d, of 0 "[[(''name'', PStr ''os'')]]"] fd
    by auto
qed



lemma fold_dict_set_other:
  "k \<notin> set names \<Longrightarrow> dict_get (fold (\<lambda>ident d. dict_set d ident v) names scope) k = dict_get scope k"
  by (induction names arbitrary: scope) (simp_all add: dict_get_set)

lemma exec_code_other:
  "\<forall>stmt \<in> set compiled. k \<notin> set (fst stmt) \<Longrightarrow>
     dict_get (snd (exec_code H compiled scope)) k = dict_get scope k"
proof (induction compiled arbitrary: scope)
  case Nil
  then show ?case by simp
next
  case (Cons stmt compiled)
  obtain names e where stmt: "stmt = (names, e)" by (cases stmt)
  show ?case
  proof (cases "eval_expr H scope e")
    case (Inl exc)
    then show ?thesis by (simp add: stmt)
  next
    case (Inr v)
    have "k \<notin> set names" using Cons.prems by (simp add: stmt)
    moreover have "\<forall>s \<in> set compiled. k \<notin> set (fst s)" using Cons.prems by simp
    ultimately show ?thesis
      using Cons.IH [of "fold (\<lambda>ident d. dict_set d ident v) names scope"] Inr
      by (simp add: stmt fold_dict_set_other)
  qed
qed

lemma compile_target_stored: "compile_target node = Some ident \<Longrightarrow> ident \<in> stored_names node"
  by (induction node rule: compile_target.induct) simp_all

lemma those_targets_stored:
  "those (map compile_target targets) = Some names \<Longrightarrow>
     set names \<subseteq> (\<Union>node \<in> set targets. stored_names node)"
proof (induction targets arbitrary: names)
  case Nil
  then show ?case by simp
next
  case (Cons t targets)
  from Cons.prems obtain x z where
    x: "compile_target t = Some x" and z: "those (map compile_target targets) = Some z"
    and n: "names = x # z"
    by (auto split: option.splits)
  have "x \<in> stored_names t" by (rule compile_target_stored [OF x])
  moreover have "set z \<subseteq> (\<Union>node \<in> set targets. stored_names node)"
    by (rule Cons.IH [OF z])
  ultimately show ?case using n by auto
qed

lemma compile_stmt_stored:
  "compile_stmt node = Some stmt \<Longrightarrow> set (fst stmt) \<subseteq> stored_names node"
proof (cases node)
  case (Assign targets val)
  assume "compile_stmt node = Some stmt"
  then show ?thesis
    using those_targets_stored [of targets] Assign
    by (auto split: option.splits if_splits)
qed simp_all

lemma those_stmts_stored:
  "those (map compile_stmt body) = Some compiled \<Longrightarrow>
     \<forall>stmt \<in> set compiled. set (fst stmt) \<subseteq> (\<Union>node \<in> set body. stored_names node)"
proof (induction body arbitrary: compiled)
  case Nil
  then show ?case by simp
next
  case (Cons s body)
  from Cons.prems obtain x z where
    x: "compile_stmt s = Some x" and z: "those (map compile_stmt body) = Some z"
    and n: "compiled = x # z"
    by (auto split: option.splits)
  have "set (fst x) \<subseteq> stored_names s" by (rule compile_stmt_stored [OF x])
  moreover have "\<forall>stmt \<in> set z. set (fst stmt) \<subseteq> (\<Union>node \<in> set body. stored_names node)"
    by (rule Cons.IH [OF z])
  ultimately show ?case using n by auto
qed

lemma py_compile_stored:
  assumes "py_compile H tree = Inr compiled"
  shows "\<forall>stmt \<in> set compiled. set (fst stmt) \<subseteq> stored_names tree"
proof (cases tree)
  case (Module body)
  then show ?thesis using assms those_stmts_stored [of body compiled]
    by (auto split: option.splits)
qed (use assms in simp_all)

text \<open>
  Claim C7. For a snippet that parses, passes the validator and runs to its end without
  a fault, and that binds the name \<open>result\<close> nowhere, \<open>safe_exec\<close> returns \<open>None\<close>, the
  value \<open>result\<close> was given before the run, also when the caller's dictionary has an
  entry \<open>result\<close> of its own. \<open>None\<close> is not an execution error for the loops.
\<close>

theorem unassigned_result_is_none:
  assumes "ast_parse H code_str = Inr tree"
      and "validate_ast tree = Inr ()"
      and "safe_exec_try H code_str context h = (Inr v, h')"
      and "''result'' \<notin> stored_names tree"
  shows "safe_exec H code_str context h = (PNone, h')
       \<and> \<not> is_execution_error (fst (safe_exec H code_str context h))"
proof -
  obtain compiled where c: "py_compile H tree = Inr compiled"
    using assms(1,2,3) by (cases "py_compile H tree") (simp_all add: safe_exec_try_def)
  have no: "\<forall>stmt \<in> set compiled. ''result'' \<notin> set (fst stmt)"
    using py_compile_stored [OF c] assms(4) by blast
  let ?scope = "dict_set (h ! context) ''result'' PNone"
  have keep: "dict_get (snd (exec_code H compiled ?scope)) ''result'' = Some PNone"
    using exec_code_other [OF no, of H ?scope] by (simp add: dict_get_set)
  have "v = PNone"
    using assms(1,2,3) c keep
    by (auto simp: safe_exec_try_def alloc_def Let_def split_def split: option.splits)
  then show ?thesis using assms(3) by (simp add: safe_exec_def)
qed

theorem unassigned_result_is_none_witness:
  "safe_exec demo_host ''total = 7'' 0 [[(''result'', PInt 5)]]
     = (PNone, [[(''result'', PInt 5)], [(''result'', PNone), (''total'', PInt 7)]])"
proof -
  let ?tree = "Module [Assign [Name ''total'' Store] (Constant (PInt 7))] :: string ast"
  have p: "ast_parse demo_host ''total = 7'' = Inr ?tree"
    by (simp add: demo_host_def demo_parse_def)
  have ok: "validate_ast ?tree = Inr ()"
    by (simp add: validate_ast_def isinstance_def ALLOWED_AST_NODES_def)
  have run: "safe_exec_try demo_host ''total = 7'' 0 [[(''result'', PInt 5)]]
      = (Inr PNone, [[(''result'', PInt 5)], [(''result'', PNone), (''total'', PInt 7)]])"
    by code_simp
  have un: "''result'' \<notin> stored_names ?tree" by simp
  show ?thesis using unassigned_result_is_none [OF p ok run un] by simp
qed

section \<open>Properties of one attempt\<close>

lemma safe_exec_keeps_dict: "snd (safe_exec H code 0 [results]) ! 0 = results"
proof -
  have "take (length [results]) (snd (safe_exec H code 0 [results])) = [results]"
    by (simp only: safe_exec_snd safe_exec_try_frame)
  then have "take 1 (snd (safe_exec H code 0 [results])) ! 0 = [results] ! 0" by simp
  then show ?thesis by simp
qed

lemma local_feedback_rejected:
  "\<not> startswith (lower (''Execution failed: '' @ s)) ''correct''"
  by (simp add: startswith_def lower_def lower_char_def)

lemma error_output_is_text:
  assumes "is_execution_error out"
  shows "\<exists>s. out = PStr s \<and> py_str H out = Inr s \<and> json_fault H out = None"
  using assms by (cases out) simp_all

lemma yield_text_attempt:
  "attempt_output ad = PStr s \<Longrightarrow> yield_attempt V H ad = None"
  by (cases V) simp_all

lemma yield_other_loops: "V \<noteq> Streaming \<Longrightarrow> yield_attempt V H ad = None"
  by (cases V) simp_all

lemma run_attempt_unfold:
  "run_attempt V H C query stp attempt st =
     (case generate_code_for_step C (trace st) (description stp) (intermediate_results st) of
        Inl exc \<Rightarrow> Inl exc
      | Inr code \<Rightarrow>
          (case py_str H (output_of H code (intermediate_results st)) of
             Inl exc \<Rightarrow> Inl exc
           | Inr text \<Rightarrow>
               (case (if is_execution_error (output_of H code (intermediate_results st))
                      then Inr (''Execution failed: '' @ text, [])
                      else (case self_critique_output C
                                   (trace st @ [Generate (description stp) (intermediate_results st),
                                      Execute code (output_of H code (intermediate_results st))])
                                   (description stp) text query
                                   (expected_values (intermediate_results st)) of
                              Inl exc \<Rightarrow> Inl exc
                            | Inr feedback \<Rightarrow>
                                Inr (feedback,
                                     [Critique (description stp) text query
                                        (expected_values (intermediate_results st))]))) of
                  Inl exc \<Rightarrow> Inl exc
                | Inr (feedback, said) \<Rightarrow>
                    (case yield_attempt V H
                            \<lparr>attempt_number = attempt + 1, attempt_code = code,
                             attempt_output = output_of H code (intermediate_results st),
                             attempt_feedback = feedback,
                             attempt_success = startswith (lower feedback) ''correct''\<rparr> of
                       Some exc \<Rightarrow> Inl exc
                     | None \<Rightarrow>
                         Inr (\<lparr>attempt_number = attempt + 1, attempt_code = code,
                               attempt_output = output_of H code (intermediate_results st),
                               attempt_feedback = feedback,
                               attempt_success = startswith (lower feedback) ''correct''\<rparr>,
                              st\<lparr>trace := trace st
                                @ [Generate (description stp) (intermediate_results st),
                                   Execute code (output_of H code (intermediate_results st))]
                                @ said
                                @ [Attempted
                                     \<lparr>attempt_number = attempt + 1, attempt_code = code,
                                      attempt_output = output_of H code (intermediate_results st),
                                      attempt_feedback = feedback,
                                      attempt_success =
                                        startswith (lower feedback) ''correct''\<rparr>]\<rparr>)))))"
  by (simp add: run_attempt_def output_of_def split_def Let_def safe_exec_keeps_dict
           split: sum.splits option.splits)

lemma run_attempt_generate_fails:
  assumes "generate_code_for_step C (trace st) (description stp) (intermediate_results st) = Inl exc"
  shows "run_attempt V H C query stp attempt st = Inl exc"
  using assms by (simp add: run_attempt_unfold)

lemma run_attempt_str_fails:
  assumes "generate_code_for_step C (trace st) (description stp) (intermediate_results st) = Inr code"
      and "py_str H (output_of H code (intermediate_results st)) = Inl exc"
  shows "run_attempt V H C query stp attempt st = Inl exc"
  using assms by (simp add: run_attempt_unfold)

lemma run_attempt_execution_error:
  assumes "generate_code_for_step C (trace st) (description stp) (intermediate_results st) = Inr code"
      and "output_of H code (intermediate_results st) = PStr s"
      and "is_execution_error (PStr s)"
  shows "run_attempt V H C query stp attempt st =
     Inr (\<lparr>attempt_number = attempt + 1, attempt_code = code,
           attempt_output = PStr s,
           attempt_feedback = ''Execution failed: '' @ s,
           attempt_success = False\<rparr>,
          st\<lparr>trace := trace st
             @ [Generate (description stp) (intermediate_results st),
                Execute code (PStr s),
                Attempted \<lparr>attempt_number = attempt + 1, attempt_code = code,
                   attempt_output = PStr s,
                   attempt_feedback = ''Execution failed: '' @ s,
                   attempt_success = False\<rparr>]\<rparr>)"
  using assms local_feedback_rejected [of s]
  by (simp add: run_attempt_unfold yield_text_attempt)

lemma run_attempt_critique_fails:
  assumes "generate_code_for_step C (trace st) (description stp) (intermediate_results st) = Inr code"
      and "\<not> is_execution_error (output_of H code (intermediate_results st))"
      and "py_str H (output_of H code (intermediate_results st)) = Inr text"
      and "self_critique_output C
             (trace st @ [Generate (description stp) (intermediate_results st),
                          Execute code (output_of H code (intermediate_results st))])
             (description stp) text query
             (expected_values (intermediate_results st)) = Inl exc"
  shows "run_attempt V H C query stp attempt st = Inl exc"
  using assms by (simp add: run_attempt_unfold)

lemma run_attempt_shape:
  assumes "run_attempt V H C query stp attempt st = Inr (ad, st')"
  shows "\<exists>code text.
            generate_code_for_step C (trace st) (description stp) (intermediate_results st)
              = Inr code
          \<and> attempt_code ad = code
          \<and> attempt_number ad = attempt + 1
          \<and> attempt_output ad = output_of H code (intermediate_results st)
          \<and> py_str H (attempt_output ad) = Inr text
          \<and> yield_attempt V H ad = None
          \<and> attempt_success ad = startswith (lower (attempt_feedback ad)) ''correct''
          \<and> intermediate_results st' = intermediate_results st
          \<and> (if is_execution_error (attempt_output ad)
              then attempt_feedback ad = ''Execution failed: '' @ text
                 \<and> trace st' = trace st
                     @ [Generate (description stp) (intermediate_results st),
                        Execute code (attempt_output ad), Attempted ad]
              else self_critique_output C
                     (trace st @ [Generate (description stp) (intermediate_results st),
                                  Execute code (attempt_output ad)])
                     (description stp) text query
                     (expected_values (intermediate_results st)) = Inr (attempt_feedback ad)
                 \<and> trace st' = trace st
                     @ [Generate (description stp) (intermediate_results st),
                        Execute code (attempt_output ad),
                        Critique (description stp) text query
                          (expected_values (intermediate_results st)),
                        Attempted ad])"
  using assms
  by (auto simp: run_attempt_unfold split: sum.splits option.splits if_splits)

lemma attempt_loop_step:
  assumes "attempt < MAX_CRITIQUE_ATTEMPTS"
      and "run_attempt V H C query stp attempt st = Inr (ad, st1)"
  shows "attempt_loop V H C query stp attempt st =
           (if attempt_success ad
            then Inr (st1\<lparr>intermediate_results :=
                           dict_set (intermediate_results st1) (result_key (step_num stp))
                             (attempt_output ad)\<rparr>)
            else (case store_rejection V H (attempt_feedback ad) st1 of
                    Inl exc \<Rightarrow> Inl exc
                  | Inr st2 \<Rightarrow> attempt_loop V H C query stp (attempt + 1) st2))"
  using assms by (subst attempt_loop.simps) (simp del: attempt_loop.simps)

lemma attempt_loop_raises:
  assumes "attempt < MAX_CRITIQUE_ATTEMPTS"
      and "run_attempt V H C query stp attempt st = Inl exc"
  shows "attempt_loop V H C query stp attempt st = Inl exc"
  using assms by (subst attempt_loop.simps) (simp del: attempt_loop.simps)

lemma attempt_loop_exhausted:
  assumes "\<not> attempt < MAX_CRITIQUE_ATTEMPTS"
  shows "attempt_loop V H C query stp attempt st =
           Inr (st\<lparr>intermediate_results :=
                     dict_set (intermediate_results st) (result_key (step_num stp))
                       (PStr ''FAILED_TO_REFINE'')\<rparr>)"
  using assms by (subst attempt_loop.simps) (simp del: attempt_loop.simps)

lemma attempt_loop_after_rejections:
  "rejected_attempts V H C query stp n attempt st = Some st' \<Longrightarrow>
   attempt + n \<le> MAX_CRITIQUE_ATTEMPTS \<Longrightarrow>
   attempt_loop V H C query stp attempt st = attempt_loop V H C query stp (attempt + n) st'"
proof (induction n arbitrary: attempt st)
  case 0
  then show ?case by simp
next
  case (Suc n)
  from Suc.prems(1) obtain ad st1 st2 where
    run: "run_attempt V H C query stp attempt st = Inr (ad, st1)"
    and rej: "\<not> attempt_success ad"
    and sto: "store_rejection V H (attempt_feedback ad) st1 = Inr st2"
    and rest: "rejected_attempts V H C query stp n (attempt + 1) st2 = Some st'"
    by (auto split: sum.splits if_splits)
  have lt: "attempt < MAX_CRITIQUE_ATTEMPTS" using Suc.prems(2) by simp
  have "attempt_loop V H C query stp attempt st = attempt_loop V H C query stp (attempt + 1) st2"
    using attempt_loop_step [OF lt run] rej sto by (simp del: attempt_loop.simps)
  also have "\<dots> = attempt_loop V H C query stp (attempt + 1 + n) st'"
    using Suc.IH [OF rest] Suc.prems(2) by (simp del: attempt_loop.simps)
  finally show ?case by (simp del: attempt_loop.simps)
qed

lemma process_plan_append:
  "process_plan V H C query (xs @ ys) st =
     (case process_plan V H C query xs st of
        Inl exc \<Rightarrow> Inl exc
      | Inr st' \<Rightarrow> process_plan V H C query ys st')"
  by (induction xs arbitrary: st) (simp_all split: sum.splits)

text \<open>
  Claim C6. When the output of an attempt is an execution error, it is a text, the
  feedback is \<open>Execution failed: \<close> followed by that text, the attempt is a rejection,
  and the attempt is the same whatever the critic is: the critic is not called, and the
  trace gets no critique entry. Every exception that leaves the body of \<open>safe_exec\<close>
  gives such an output. An attempt that runs to its end adds one critique call to the
  trace exactly when its output is not an execution error.
\<close>

theorem execution_error_skips_critique:
  assumes "generate_code_for_step C (trace st) (description stp) (intermediate_results st) = Inr code"
  shows "(is_execution_error (output_of H code (intermediate_results st)) \<longrightarrow>
            (\<exists>s. output_of H code (intermediate_results st) = PStr s
               \<and> run_attempt V H (C\<lparr>self_critique_output := critic\<rparr>) query stp attempt st =
                   Inr (\<lparr>attempt_number = attempt + 1, attempt_code = code,
                         attempt_output = PStr s,
                         attempt_feedback = ''Execution failed: '' @ s,
                         attempt_success = False\<rparr>,
                        st\<lparr>trace := trace st
                          @ [Generate (description stp) (intermediate_results st),
                             Execute code (PStr s),
                             Attempted \<lparr>attempt_number = attempt + 1, attempt_code = code,
                               attempt_output = PStr s,
                               attempt_feedback = ''Execution failed: '' @ s,
                               attempt_success = False\<rparr>]\<rparr>)))
       \<and> (fst (safe_exec_try H code 0 [intermediate_results st]) = Inl exc \<longrightarrow>
            output_of H code (intermediate_results st) = PStr (''EXECUTION_ERROR: '' @ exc)
            \<and> is_execution_error (output_of H code (intermediate_results st)))
       \<and> (run_attempt V H C query stp attempt st = Inr (ad, st') \<longrightarrow>
            length (filter is_critique (trace st')) =
              length (filter is_critique (trace st))
                + (if is_execution_error (attempt_output ad) then 0 else 1))"
proof -
  let ?C = "C\<lparr>self_critique_output := critic\<rparr>"
  let ?out = "output_of H code (intermediate_results st)"
  have gen: "generate_code_for_step ?C (trace st) (description stp) (intermediate_results st) = Inr code"
    using assms by simp
  have a: "is_execution_error ?out \<longrightarrow>
            (\<exists>s. ?out = PStr s
               \<and> run_attempt V H ?C query stp attempt st =
                   Inr (\<lparr>attempt_number = attempt + 1, attempt_code = code,
                         attempt_output = PStr s,
                         attempt_feedback = ''Execution failed: '' @ s,
                         attempt_success = False\<rparr>,
                        st\<lparr>trace := trace st
                          @ [Generate (description stp) (intermediate_results st),
                             Execute code (PStr s),
                             Attempted \<lparr>attempt_number = attempt + 1, attempt_code = code,
                               attempt_output = PStr s,
                               attempt_feedback = ''Execution failed: '' @ s,
                               attempt_success = False\<rparr>]\<rparr>))"
  proof
    assume err: "is_execution_error ?out"
    then obtain s where s: "?out = PStr s"
      using error_output_is_text [of ?out H] by blast
    have "is_execution_error (PStr s)" using err s by simp
    then show "\<exists>s. ?out = PStr s
               \<and> run_attempt V H ?C query stp attempt st =
                   Inr (\<lparr>attempt_number = attempt + 1, attempt_code = code,
                         attempt_output = PStr s,
                         attempt_feedback = ''Execution failed: '' @ s,
                         attempt_success = False\<rparr>,
                        st\<lparr>trace := trace st
                          @ [Generate (description stp) (intermediate_results st),
                             Execute code (PStr s),
                             Attempted \<lparr>attempt_number = attempt + 1, attempt_code = code,
                               attempt_output = PStr s,
                               attempt_feedback = ''Execution failed: '' @ s,
                               attempt_success = False\<rparr>]\<rparr>)"
      using run_attempt_execution_error [OF gen s] s by blast
  qed
  have b: "fst (safe_exec_try H code 0 [intermediate_results st]) = Inl exc \<longrightarrow>
            ?out = PStr (''EXECUTION_ERROR: '' @ exc) \<and> is_execution_error ?out"
    by (simp add: output_of_def safe_exec_fst startswith_def)
  have c: "run_attempt V H C query stp attempt st = Inr (ad, st') \<longrightarrow>
            length (filter is_critique (trace st')) =
              length (filter is_critique (trace st))
                + (if is_execution_error (attempt_output ad) then 0 else 1)"
  proof
    assume r: "run_attempt V H C query stp attempt st = Inr (ad, st')"
    show "length (filter is_critique (trace st')) =
              length (filter is_critique (trace st))
                + (if is_execution_error (attempt_output ad) then 0 else 1)"
      using run_attempt_shape [OF r] by (auto split: if_splits)
  qed
  show ?thesis using a b c by blast
qed

theorem execution_error_skips_critique_witness:
  "run_attempt Streaming demo_host
     (scripted [demo_step 1] [Inr ''result = 1 // 0''] [Inr ''Correct.''])
     ''q'' (demo_step 1) 0 demo_start =
   Inr (\<lparr>attempt_number = 1, attempt_code = ''result = 1 // 0'',
         attempt_output = PStr ''EXECUTION_ERROR: integer division or modulo by zero'',
         attempt_feedback =
           ''Execution failed: EXECUTION_ERROR: integer division or modulo by zero'',
         attempt_success = False\<rparr>,
        \<lparr>intermediate_results = [],
         trace = [Decompose ''q'', Generate ''compute'' [],
                  Execute ''result = 1 // 0''
                    (PStr ''EXECUTION_ERROR: integer division or modulo by zero''),
                  Attempted \<lparr>attempt_number = 1, attempt_code = ''result = 1 // 0'',
                    attempt_output = PStr ''EXECUTION_ERROR: integer division or modulo by zero'',
                    attempt_feedback =
                      ''Execution failed: EXECUTION_ERROR: integer division or modulo by zero'',
                    attempt_success = False\<rparr>]\<rparr>)"
proof -
  let ?C = "scripted [demo_step 1] [Inr ''result = 1 // 0''] [Inr ''Correct.'']
              :: string collaborators"
  have g: "generate_code_for_step ?C (trace demo_start) (description (demo_step 1))
             (intermediate_results demo_start) = Inr ''result = 1 // 0''"
    by code_simp
  have out: "output_of demo_host ''result = 1 // 0'' (intermediate_results demo_start)
               = PStr ''EXECUTION_ERROR: integer division or modulo by zero''"
    by code_simp
  have err: "is_execution_error (output_of demo_host ''result = 1 // 0''
               (intermediate_results demo_start))"
    by code_simp
  have same: "?C\<lparr>self_critique_output := self_critique_output ?C\<rparr> = ?C" by simp
  show ?thesis
    using execution_error_skips_critique
            [OF g, where H = demo_host and critic = "self_critique_output ?C"
               and V = Streaming and query = "''q''" and attempt = 0]
      err out same
    by (simp add: demo_start_def demo_step_def)
qed

section \<open>Properties of the retry loop\<close>

lemma completed_attempt_decides:
  assumes "rejected_attempts V H C query stp k 0 st0 = Some st"
      and "k < MAX_CRITIQUE_ATTEMPTS"
      and "run_attempt V H C query stp k st = Inr (ad, st1)"
  shows "attempt_success ad = startswith (lower (attempt_feedback ad)) ''correct''
       \<and> attempt_number ad = k + 1
       \<and> last (trace st1) = Attempted ad
       \<and> (attempt_success ad \<longrightarrow>
            (\<exists>st'. attempt_loop V H C query stp 0 st0 = Inr st'
               \<and> dict_get (intermediate_results st') (result_key (step_num stp))
                   = Some (attempt_output ad)
               \<and> trace st' = trace st1))
       \<and> (\<not> attempt_success ad \<longrightarrow>
            attempt_loop V H C query stp 0 st0 =
              (case store_rejection V H (attempt_feedback ad) st1 of
                 Inl exc \<Rightarrow> Inl exc
               | Inr st2 \<Rightarrow> attempt_loop V H C query stp (k + 1) st2))"
proof -
  have shape: "attempt_success ad = startswith (lower (attempt_feedback ad)) ''correct''
      \<and> attempt_number ad = k + 1 \<and> last (trace st1) = Attempted ad"
    using run_attempt_shape [OF assms(3)] by (auto split: if_splits)
  have "attempt_loop V H C query stp 0 st0 = attempt_loop V H C query stp k st"
    using attempt_loop_after_rejections [OF assms(1)] assms(2)
    by (simp del: attempt_loop.simps)
  then have loop: "attempt_loop V H C query stp 0 st0 =
           (if attempt_success ad
            then Inr (st1\<lparr>intermediate_results :=
                           dict_set (intermediate_results st1) (result_key (step_num stp))
                             (attempt_output ad)\<rparr>)
            else (case store_rejection V H (attempt_feedback ad) st1 of
                    Inl exc \<Rightarrow> Inl exc
                  | Inr st2 \<Rightarrow> attempt_loop V H C query stp (k + 1) st2))"
    using attempt_loop_step [OF assms(2,3)] by (simp del: attempt_loop.simps)
  show ?thesis using shape loop by (simp add: dict_get_set del: attempt_loop.simps)
qed

lemma critic_answer_reaches_test:
  assumes "V \<noteq> Streaming"
      and "generate_code_for_step C (trace st) (description stp) (intermediate_results st) = Inr code"
      and "\<not> is_execution_error (output_of H code (intermediate_results st))"
      and "py_str H (output_of H code (intermediate_results st)) = Inr text"
      and "self_critique_output C
             (trace st @ [Generate (description stp) (intermediate_results st),
                          Execute code (output_of H code (intermediate_results st))])
             (description stp) text query
             (expected_values (intermediate_results st)) = Inr feedback"
  shows "\<exists>ad st1. run_attempt V H C query stp attempt st = Inr (ad, st1)
           \<and> attempt_feedback ad = feedback
           \<and> attempt_output ad = output_of H code (intermediate_results st)"
  using assms by (simp add: run_attempt_unfold yield_other_loops)

lemma three_rejections_store_sentinel:
  assumes "rejected_attempts V H C query stp MAX_CRITIQUE_ATTEMPTS 0 st = Some st3"
      and "step_type stp = ''calculation'' \<or> step_type stp = ''data_lookup''"
  shows "attempt_loop V H C query stp 0 st =
           Inr (st3\<lparr>intermediate_results :=
                      dict_set (intermediate_results st3) (result_key (step_num stp))
                        (PStr ''FAILED_TO_REFINE'')\<rparr>)
       \<and> process_plan V H C query (stp # rest) st =
           process_plan V H C query rest
             (st3\<lparr>intermediate_results :=
                   dict_set (intermediate_results st3) (result_key (step_num stp))
                     (PStr ''FAILED_TO_REFINE'')\<rparr>)"
proof -
  have "attempt_loop V H C query stp 0 st = attempt_loop V H C query stp MAX_CRITIQUE_ATTEMPTS st3"
    using attempt_loop_after_rejections [OF assms(1)] by (simp del: attempt_loop.simps)
  then have loop: "attempt_loop V H C query stp 0 st =
           Inr (st3\<lparr>intermediate_results :=
                      dict_set (intermediate_results st3) (result_key (step_num stp))
                        (PStr ''FAILED_TO_REFINE'')\<rparr>)"
    by (simp add: attempt_loop_exhausted del: attempt_loop.simps)
  have enters: "enters_retry_loop V (step_type stp)"
    using assms(2) by (cases V) auto
  show ?thesis using loop enters by (simp del: attempt_loop.simps)
qed

text \<open>
  Claim C3. An attempt that runs to its end is a success exactly when the lowered
  feedback starts with \<open>correct\<close>, and on success the loop stores the output under the
  result key of the step and ends there (lemma \<open>completed_attempt_decides\<close>). In the loop
  of \<open>main.py\<close> and in the blocking loop of \<open>app.py\<close> every attempt whose critique
  call returns runs to its end (lemma \<open>critic_answer_reaches_test\<close>). The streaming loop
  yields \<open>json.dumps\<close> of the attempt record between the critique call and the test of
  success. Take a step whose snippet is \<open>result = (-8) ** (1 / 3)\<close>, a complex number,
  and a critic that answers \<open>Correct.\<close>: the streaming loop ends with the \<open>TypeError\<close>
  of \<open>json.dumps\<close> and records no result, the other two loops accept the attempt and
  store the complex number under \<open>step_1_result\<close>.
\<close>

theorem streaming_yield_precedes_acceptance:
  "attempt_loop Streaming demo_host
     (scripted [demo_step 1] [Inr ''result = (-8) ** (1 / 3)''] [Inr ''Correct.''])
     ''q'' (demo_step 1) 0 demo_start
     = Inl ''Object of type complex is not JSON serializable''
   \<and> (case attempt_loop Blocking demo_host
            (scripted [demo_step 1] [Inr ''result = (-8) ** (1 / 3)''] [Inr ''Correct.''])
            ''q'' (demo_step 1) 0 demo_start of
         Inl exc \<Rightarrow> None
       | Inr st \<Rightarrow> dict_get (intermediate_results st) ''step_1_result'')
     = Some (PComplex ''(1.0000000000000002+1.7320508075688772j)'')
   \<and> (case attempt_loop Console demo_host
            (scripted [demo_step 1] [Inr ''result = (-8) ** (1 / 3)''] [Inr ''Correct.''])
            ''q'' (demo_step 1) 0 demo_start of
         Inl exc \<Rightarrow> None
       | Inr st \<Rightarrow> dict_get (intermediate_results st) ''step_1_result'')
     = Some (PComplex ''(1.0000000000000002+1.7320508075688772j)'')"
  by code_simp

text \<open>
  Claim C4. When the three attempts of a \<open>calculation\<close> or \<open>data_lookup\<close> step all run
  to their end and their rejections are stored, the loop ends with the sentinel
  \<open>FAILED_TO_REFINE\<close> under the result key of the step and the plan goes on with the
  next step (lemma \<open>three_rejections_store_sentinel\<close>). In the streaming loop a step
  that is never accepted can end the plan instead, on two plans of two steps. In the
  first the snippet of step 1 gives a complex number three times and the critic rejects
  it three times: the loop of \<open>main.py\<close> and the blocking loop store the sentinel for
  step 1 and the result 14 for step 2, the streaming loop ends with the \<open>TypeError\<close> of
  \<open>json.dumps\<close> at the first attempt record. In the second the first rejection of step 1
  has a feedback that starts with \<open>Incorrect:\<close> and contains a backslash followed by
  \<open>d\<close>: the pattern of the streaming loop, written with doubled backslashes, finds
  that token, \<open>float\<close> raises a \<open>ValueError\<close> on it and the plan ends; the loop of
  \<open>main.py\<close> finds no number, stores the sentinel for step 1 and the result 14 for
  step 2.
\<close>

theorem streaming_loop_aborts_plan:
  "process_plan Streaming demo_host
     (scripted [demo_step 1, demo_step 2]
        [Inr ''result = (-8) ** (1 / 3)'', Inr ''result = (-8) ** (1 / 3)'',
         Inr ''result = (-8) ** (1 / 3)'', Inr ''result = 2 + 3 * 4'']
        [Inr ''Incorrect: the result must be real'', Inr ''Incorrect: the result must be real'',
         Inr ''Incorrect: the result must be real'', Inr ''Correct.''])
     ''q'' [demo_step 1, demo_step 2] demo_start
     = Inl ''Object of type complex is not JSON serializable''
   \<and> (case process_plan Console demo_host
            (scripted [demo_step 1, demo_step 2]
               [Inr ''result = (-8) ** (1 / 3)'', Inr ''result = (-8) ** (1 / 3)'',
                Inr ''result = (-8) ** (1 / 3)'', Inr ''result = 2 + 3 * 4'']
               [Inr ''Incorrect: the result must be real'',
                Inr ''Incorrect: the result must be real'',
                Inr ''Incorrect: the result must be real'', Inr ''Correct.''])
            ''q'' [demo_step 1, demo_step 2] demo_start of
         Inl exc \<Rightarrow> []
       | Inr st \<Rightarrow>
           [dict_get (intermediate_results st) ''step_1_result'',
            dict_get (intermediate_results st) ''step_2_result''])
     = [Some (PStr ''FAILED_TO_REFINE''), Some (PInt 14)]
   \<and> (case process_plan Blocking demo_host
            (scripted [demo_step 1, demo_step 2]
               [Inr ''result = (-8) ** (1 / 3)'', Inr ''result = (-8) ** (1 / 3)'',
                Inr ''result = (-8) ** (1 / 3)'', Inr ''result = 2 + 3 * 4'']
               [Inr ''Incorrect: the result must be real'',
                Inr ''Incorrect: the result must be real'',
                Inr ''Incorrect: the result must be real'', Inr ''Correct.''])
            ''q'' [demo_step 1, demo_step 2] demo_start of
         Inl exc \<Rightarrow> []
       | Inr st \<Rightarrow>
           [dict_get (intermediate_results st) ''step_1_result'',
            dict_get (intermediate_results st) ''step_2_result''])
     = [Some (PStr ''FAILED_TO_REFINE''), Some (PInt 14)]
   \<and> process_plan Streaming demo_host
     (scripted [demo_step 1, demo_step 2]
        [Inr ''total = 7'', Inr ''total = 7'', Inr ''total = 7'', Inr ''result = 2 + 3 * 4'']
        [Inr (''Incorrect: the pattern '' @ [CHR 0x5C] @ ''d matches a digit''),
         Inr ''Incorrect: no result'', Inr ''Incorrect: no result'', Inr ''Correct.''])
     ''q'' [demo_step 1, demo_step 2] demo_start
     = Inl (''could not convert string to float: ''
            @ [CHR 0x27, CHR 0x5C, CHR 0x5C, CHR ''d'', CHR 0x27])
   \<and> (case process_plan Console demo_host
            (scripted [demo_step 1, demo_step 2]
               [Inr ''total = 7'', Inr ''total = 7'', Inr ''total = 7'',
                Inr ''result = 2 + 3 * 4'']
               [Inr (''Incorrect: the pattern '' @ [CHR 0x5C] @ ''d matches a digit''),
                Inr ''Incorrect: no result'', Inr ''Incorrect: no result'', Inr ''Correct.''])
            ''q'' [demo_step 1, demo_step 2] demo_start of
         Inl exc \<Rightarrow> []
       | Inr st \<Rightarrow>
           [dict_get (intermediate_results st) ''step_1_result'',
            dict_get (intermediate_results st) ''step_2_result''])
     = [Some (PStr ''FAILED_TO_REFINE''), Some (PInt 14)]"
  by code_simp

text \<open>
  Claim C2, as the code has it. No copy of the loop catches an exception of the
  generation call or of the critique call: when one of them raises in some attempt of
  some step, the attempt, the retry loop, and the whole query end with that exception.
  No feedback is stored for the attempt and no further attempt runs.
\<close>

theorem collaborator_failure_is_fatal:
  assumes "decompose_problem C query = Inr (before @ stp # after)"
      and "process_plan V H C query before
             \<lparr>intermediate_results = [], trace = [Decompose query]\<rparr> = Inr st0"
      and "enters_retry_loop V (step_type stp)"
      and "rejected_attempts V H C query stp k 0 st0 = Some st"
      and "k < MAX_CRITIQUE_ATTEMPTS"
      and "generate_code_for_step C (trace st) (description stp) (intermediate_results st) = Inl exc
         \<or> (\<exists>code text.
               generate_code_for_step C (trace st) (description stp) (intermediate_results st)
                 = Inr code
             \<and> \<not> is_execution_error (output_of H code (intermediate_results st))
             \<and> py_str H (output_of H code (intermediate_results st)) = Inr text
             \<and> self_critique_output C
                 (trace st @ [Generate (description stp) (intermediate_results st),
                              Execute code (output_of H code (intermediate_results st))])
                 (description stp) text query
                 (expected_values (intermediate_results st)) = Inl exc)"
  shows "run_attempt V H C query stp k st = Inl exc
       \<and> attempt_loop V H C query stp 0 st0 = Inl exc
       \<and> solve_query V H C query = Inl exc"
proof -
  have run: "run_attempt V H C query stp k st = Inl exc"
    using assms(6) run_attempt_generate_fails run_attempt_critique_fails by blast
  have "attempt_loop V H C query stp 0 st0 = attempt_loop V H C query stp k st"
    using attempt_loop_after_rejections [OF assms(4)] assms(5)
    by (simp del: attempt_loop.simps)
  then have loop: "attempt_loop V H C query stp 0 st0 = Inl exc"
    using attempt_loop_raises [OF assms(5) run] by (simp del: attempt_loop.simps)
  have "process_plan V H C query (before @ stp # after)
          \<lparr>intermediate_results = [], trace = [Decompose query]\<rparr> = Inl exc"
    using assms(2,3) loop by (simp add: process_plan_append del: attempt_loop.simps)
  then have "solve_query V H C query = Inl exc"
    using assms(1) by (simp add: solve_query_def)
  then show ?thesis using run loop by simp
qed

theorem collaborator_failure_is_fatal_witness:
  "solve_query_stream demo_host
     (scripted [demo_step 1, demo_step 2]
        [Inr ''result = 2 + 3 * 4'', Inr ''total = 7'', Inr ''result = 2 + 3 * 4'']
        [Inr ''Correct.'', Inr ''Incorrect: expected 7'', Inl ''Read timed out''])
     ''q'' = Inl ''Read timed out''"
proof -
  let ?C = "scripted [demo_step 1, demo_step 2]
        [Inr ''result = 2 + 3 * 4'', Inr ''total = 7'', Inr ''result = 2 + 3 * 4'']
        [Inr ''Correct.'', Inr ''Incorrect: expected 7'', Inl ''Read timed out'']
        :: string collaborators"
  let ?base = "projr (process_plan Streaming demo_host ?C ''q'' [demo_step 1]
             \<lparr>intermediate_results = [], trace = [Decompose ''q'']\<rparr>)"
  let ?cur = "the (rejected_attempts Streaming demo_host ?C ''q'' (demo_step 2) 1 0 ?base)"
  have h1: "decompose_problem ?C ''q'' = Inr ([demo_step 1] @ demo_step 2 # [])"
    by (simp add: scripted_def)
  have h2: "process_plan Streaming demo_host ?C ''q'' [demo_step 1]
             \<lparr>intermediate_results = [], trace = [Decompose ''q'']\<rparr> = Inr ?base"
    by code_simp
  have h3: "enters_retry_loop Streaming (step_type (demo_step 2))" by simp
  have h4: "rejected_attempts Streaming demo_host ?C ''q'' (demo_step 2) 1 0 ?base = Some ?cur"
    by code_simp
  have h5: "(1::nat) < MAX_CRITIQUE_ATTEMPTS" by (simp add: MAX_CRITIQUE_ATTEMPTS_def)
  have g: "generate_code_for_step ?C (trace ?cur) (description (demo_step 2))
             (intermediate_results ?cur) = Inr ''result = 2 + 3 * 4''"
    by code_simp
  have ne: "\<not> is_execution_error (output_of demo_host ''result = 2 + 3 * 4''
              (intermediate_results ?cur))"
    by code_simp
  have tx: "py_str demo_host (output_of demo_host ''result = 2 + 3 * 4''
              (intermediate_results ?cur)) = Inr ''14''"
    by code_simp
  have cr: "self_critique_output ?C
              (trace ?cur @ [Generate (description (demo_step 2)) (intermediate_results ?cur),
                 Execute ''result = 2 + 3 * 4''
                   (output_of demo_host ''result = 2 + 3 * 4'' (intermediate_results ?cur))])
              (description (demo_step 2)) ''14''
              ''q'' (expected_values (intermediate_results ?cur)) = Inl ''Read timed out''"
    by code_simp
  have h6: "generate_code_for_step ?C (trace ?cur) (description (demo_step 2))
              (intermediate_results ?cur) = Inl ''Read timed out''
         \<or> (\<exists>code text.
               generate_code_for_step ?C (trace ?cur) (description (demo_step 2))
                 (intermediate_results ?cur) = Inr code
             \<and> \<not> is_execution_error (output_of demo_host code (intermediate_results ?cur))
             \<and> py_str demo_host (output_of demo_host code (intermediate_results ?cur)) = Inr text
             \<and> self_critique_output ?C
                 (trace ?cur @ [Generate (description (demo_step 2)) (intermediate_results ?cur),
                              Execute code (output_of demo_host code (intermediate_results ?cur))])
                 (description (demo_step 2)) text ''q''
                 (expected_values (intermediate_results ?cur)) = Inl ''Read timed out'')"
    using g ne tx cr by blast
  show ?thesis
    using collaborator_failure_is_fatal [OF h1 h2 h3 h4 h5 h6]
    by (simp add: solve_query_stream_def)
qed

text \<open>
  The claim as the specification words it, a failure that is caught and retried, fails
  on an example: the generation call raises in the first attempt and would have
  succeeded in a second one; the critique call raises in the first attempt and would
  have accepted in a second one. Both queries end with the exception.
\<close>

theorem collaborator_failure_counterexample:
  "solve_complex_query demo_host
     (scripted [demo_step 1] [Inl ''HTTP Error 500'', Inr ''result = 2 + 3 * 4'']
        [Inr ''Correct.''])
     ''q'' = Inl ''HTTP Error 500''
   \<and> solve_query_with_steps demo_host
     (scripted [demo_step 1] [Inr ''result = 2 + 3 * 4'', Inr ''result = 2 + 3 * 4'']
        [Inl ''Read timed out'', Inr ''Correct.''])
     ''q'' = Inl ''Read timed out''"
  by code_simp

section \<open>The extraction of a correction\<close>

lemma escaped_pattern_finds_nothing:
  "findall match_escaped ''Incorrect: should be 42 not 41.5'' = []"
  by code_simp

lemma number_pattern_finds_both:
  "findall match_number ''Incorrect: should be 42 not 41.5'' = [''42'', ''41.5'']"
  by code_simp

lemma blocking_loops_store_last_number:
  assumes "to_float H ''41.5'' = Inr x" and "V \<noteq> Streaming"
  shows "store_rejection V H ''Incorrect: should be 42 not 41.5'' st =
     Inr (st\<lparr>intermediate_results :=
               dict_set (dict_set (intermediate_results st) ''last_feedback''
                           (PStr ''Incorrect: should be 42 not 41.5''))
                 ''expected_correction'' (PFloat x)\<rparr>)"
proof -
  have "correction_numbers V ''Incorrect: should be 42 not 41.5'' = [''42'', ''41.5'']"
    using assms(2) number_pattern_finds_both by (cases V) simp_all
  then show ?thesis
    using assms(1) by (simp add: store_rejection_def startswith_def)
qed

text \<open>
  Claim C5 at the feedback \<open>Incorrect: should be 42 not 41.5\<close>. The loops of
  \<open>main.py\<close> and the blocking loop of \<open>app.py\<close> store the float of \<open>41.5\<close>, the last
  number (lemma \<open>blocking_loops_store_last_number\<close>). The streaming loop writes its
  pattern with doubled backslashes in a raw string; that pattern finds no number in this
  feedback, and the loop stores \<open>last_feedback\<close> only.
\<close>

theorem streaming_loop_stores_no_correction:
  "store_rejection Streaming H ''Incorrect: should be 42 not 41.5'' st =
     Inr (st\<lparr>intermediate_results :=
               dict_set (intermediate_results st) ''last_feedback''
                 (PStr ''Incorrect: should be 42 not 41.5'')\<rparr>)"
proof -
  have "correction_numbers Streaming ''Incorrect: should be 42 not 41.5'' = []"
    using escaped_pattern_finds_nothing by simp
  then show ?thesis
    by (simp add: store_rejection_def startswith_def)
qed

section \<open>The expected values passed to the critic\<close>







lemma keys_dict_set:
  "map fst (dict_set d k v) = (if k \<in> set (map fst d) then map fst d else map fst d @ [k])"
  by (induction d) force+

lemma distinct_dict_set:
  "distinct (map fst d) \<Longrightarrow> distinct (map fst (dict_set d k v))"
  by (auto simp: keys_dict_set)

lemma well_formed_empty: "well_formed []"
  by (simp add: well_formed_def)

lemma well_formed_dict_set:
  "well_formed d \<Longrightarrow> loop_key k \<Longrightarrow> well_formed (dict_set d k v)"
  unfolding well_formed_def using distinct_dict_set [of d k v]
  by (auto simp: keys_dict_set)

lemma loop_key_result_key: "loop_key (result_key num)"
  by (auto simp: loop_key_def)

lemma store_rejection_well_formed:
  assumes "store_rejection V H feedback st = Inr st'"
      and "well_formed (intermediate_results st)"
  shows "well_formed (intermediate_results st')"
proof -
  have a: "well_formed (dict_set (intermediate_results st) ''last_feedback'' (PStr feedback))"
    using assms(2) by (rule well_formed_dict_set) (simp add: loop_key_def)
  have b: "\<And>v. well_formed (dict_set (dict_set (intermediate_results st) ''last_feedback''
             (PStr feedback)) ''expected_correction'' v)"
    using a by (rule well_formed_dict_set) (simp add: loop_key_def)
  show ?thesis
    using assms(1) a b
    by (auto simp: store_rejection_def Let_def split: if_splits list.splits sum.splits)
qed

lemma attempt_loop_well_formed:
  "attempt_loop V H C query stp attempt st = Inr st' \<Longrightarrow>
   well_formed (intermediate_results st) \<Longrightarrow> well_formed (intermediate_results st')"
proof (induction V H C query stp attempt st rule: attempt_loop.induct)
  case (1 V H C query stp attempt st)
  show ?case
  proof (cases "attempt < MAX_CRITIQUE_ATTEMPTS")
    case False
    then have "st' = st\<lparr>intermediate_results :=
                     dict_set (intermediate_results st) (result_key (step_num stp))
                       (PStr ''FAILED_TO_REFINE'')\<rparr>"
      using "1.prems"(1) attempt_loop_exhausted [OF False, of V H C query stp st] by simp
    then show ?thesis
      using "1.prems"(2) by (simp add: well_formed_dict_set loop_key_result_key)
  next
    case True
    show ?thesis
    proof (cases "run_attempt V H C query stp attempt st")
      case (Inl exc)
      then show ?thesis
        using "1.prems"(1) attempt_loop_raises [OF True Inl] by simp
    next
      case (Inr r)
      obtain ad st1 where r: "r = (ad, st1)" by (cases r)
      have run: "run_attempt V H C query stp attempt st = Inr (ad, st1)" using Inr r by simp
      have same: "intermediate_results st1 = intermediate_results st"
        using run_attempt_shape [OF run] by blast
      have step: "attempt_loop V H C query stp attempt st =
           (if attempt_success ad
            then Inr (st1\<lparr>intermediate_results :=
                           dict_set (intermediate_results st1) (result_key (step_num stp))
                             (attempt_output ad)\<rparr>)
            else (case store_rejection V H (attempt_feedback ad) st1 of
                    Inl exc \<Rightarrow> Inl exc
                  | Inr st2 \<Rightarrow> attempt_loop V H C query stp (attempt + 1) st2))"
        by (rule attempt_loop_step [OF True run])
      show ?thesis
      proof (cases "attempt_success ad")
        case True
        then have "st' = st1\<lparr>intermediate_results :=
                           dict_set (intermediate_results st1) (result_key (step_num stp))
                             (attempt_output ad)\<rparr>"
          using step "1.prems"(1) by simp
        then show ?thesis
          using "1.prems"(2) same by (simp add: well_formed_dict_set loop_key_result_key)
      next
        case False
        then obtain st2 where
          sto: "store_rejection V H (attempt_feedback ad) st1 = Inr st2"
          and rest: "attempt_loop V H C query stp (attempt + 1) st2 = Inr st'"
          using step "1.prems"(1)
          by (cases "store_rejection V H (attempt_feedback ad) st1")
             (simp_all del: attempt_loop.simps)
        have wf2: "well_formed (intermediate_results st2)"
          using store_rejection_well_formed [OF sto] "1.prems"(2) same by simp
        show ?thesis
          using "1.IH" [OF \<open>attempt < MAX_CRITIQUE_ATTEMPTS\<close> run refl False sto rest wf2]
          by simp
      qed
    qed
  qed
qed

lemma process_plan_well_formed:
  "process_plan V H C query steps st = Inr st' \<Longrightarrow>
   well_formed (intermediate_results st) \<Longrightarrow> well_formed (intermediate_results st')"
proof (induction steps arbitrary: st)
  case Nil
  then show ?case by simp
next
  case (Cons stp steps)
  show ?case
  proof (cases "enters_retry_loop V (step_type stp)")
    case False
    then show ?thesis using Cons by (simp del: attempt_loop.simps)
  next
    case True
    then obtain st1 where
      a: "attempt_loop V H C query stp 0 st = Inr st1"
      and b: "process_plan V H C query steps st1 = Inr st'"
      using Cons.prems(1)
      by (cases "attempt_loop V H C query stp 0 st") (simp_all del: attempt_loop.simps)
    show ?thesis
      using Cons.IH [OF b] attempt_loop_well_formed [OF a Cons.prems(2)] by simp
  qed
qed

lemma rejected_attempts_well_formed:
  "rejected_attempts V H C query stp n attempt st = Some st' \<Longrightarrow>
   well_formed (intermediate_results st) \<Longrightarrow> well_formed (intermediate_results st')"
proof (induction n arbitrary: attempt st)
  case 0
  then show ?case by simp
next
  case (Suc n)
  from Suc.prems(1) obtain ad st1 st2 where
    run: "run_attempt V H C query stp attempt st = Inr (ad, st1)"
    and sto: "store_rejection V H (attempt_feedback ad) st1 = Inr st2"
    and rest: "rejected_attempts V H C query stp n (attempt + 1) st2 = Some st'"
    by (auto split: sum.splits if_splits)
  have "intermediate_results st1 = intermediate_results st"
    using run_attempt_shape [OF run] by blast
  then have "well_formed (intermediate_results st2)"
    using store_rejection_well_formed [OF sto] Suc.prems(2) by simp
  then show ?case using Suc.IH [OF rest] by simp
qed






section \<open>The transient keys across steps\<close>














end
